theory Spec2Isabelle
  imports Complex_Main "HOL-Library.Sublist"
begin

section \<open>Python values, exceptions and the runtime\<close>

text \<open>
  The scripts traverse decoded JSON with \<^verbatim>\<open>.get\<close>, indexing and truthiness tests, and
  keep the conversation history as a list of two-element lists. A value is therefore one
  of the JSON shapes. A float is held as the real number it denotes (no arithmetic is done
  on floats in the embedded code). A dictionary is an association list (JSON keys are
  text; insertion order is the iteration order).
\<close>

datatype pyval =
    PNone
  | PBool bool
  | PInt int
  | PFloat real
  | PStr string
  | PList "pyval list"
  | PDict "(string \<times> pyval) list"

record response =
  status_code :: nat
  body_text :: string

text \<open>
  The exceptions that the embedded code can meet. \<open>Timeout\<close>, \<open>ConnectionError\<close>,
  \<open>HTTPError\<close> and \<open>OtherRequestException\<close> are the classes of
  \<^verbatim>\<open>requests.exceptions\<close> below \<^verbatim>\<open>RequestException\<close>; \<open>HTTPError\<close> carries the
  response, as \<^verbatim>\<open>raise_for_status\<close> attaches it. \<open>OtherException\<close> stands for any
  other subclass of \<^verbatim>\<open>Exception\<close>; an interrupt of the process is not one and is
  not modelled. \<open>JSONDecodeError\<close> is what \<^verbatim>\<open>response.json()\<close> raises on a body that does
  not decode: the class of \<^verbatim>\<open>requests.exceptions\<close> of that name, which is both a
  \<^verbatim>\<open>RequestException\<close> and the \<^verbatim>\<open>JSONDecodeError\<close> of the \<^verbatim>\<open>json\<close> module.
\<close>

datatype exn =
    Timeout
  | ConnectionError
  | HTTPError response
  | OtherRequestException
  | JSONDecodeError
  | AttributeError
  | TypeError
  | ValueError
  | KeyError
  | IndexError
  | OtherException

fun is_RequestException :: "exn \<Rightarrow> bool" where
  "is_RequestException Timeout = True"
| "is_RequestException ConnectionError = True"
| "is_RequestException (HTTPError r) = True"
| "is_RequestException OtherRequestException = True"
| "is_RequestException JSONDecodeError = True"
| "is_RequestException e = False"

record request =
  req_url :: string
  req_headers :: "(string \<times> string) list"
  req_json :: pyval
  req_timeout :: "nat option"

text \<open>
  What the interpreter and the libraries supply, taken as parameters: \<open>str_of\<close> is
  Python's \<^verbatim>\<open>str()\<close> on a value that is not text, None or a boolean, \<open>exn_str\<close> the
  message of an exception, \<open>json_dumps\<close> (with its \<^verbatim>\<open>indent\<close> argument) and
  \<open>json_loads\<close> the standard \<^verbatim>\<open>json\<close> module on the values and bodies of the
  responses, which are JSON objects (\<open>None\<close> is a decode error), \<open>getenv\<close> the
  process environment, and \<open>post\<close> the outcome of \<^verbatim>\<open>requests.post\<close> for a request.
  The JSON text of the history file is not a parameter: its encoder and its decoder are
  defined with the commands that save and load the history.
\<close>

record runtime =
  str_of :: "pyval \<Rightarrow> string"
  exn_str :: "exn \<Rightarrow> string"
  json_dumps :: "nat option \<Rightarrow> pyval \<Rightarrow> string"
  json_loads :: "string \<Rightarrow> pyval option"
  getenv :: "string \<Rightarrow> string option"
  post :: "request \<Rightarrow> exn + response"

abbreviation NL :: string where
  "NL \<equiv> [CHR 0x0A]"

abbreviation SQ :: string where
  "SQ \<equiv> [CHR 0x27]"

text \<open>Formatting a value inside an f-string.\<close>

fun fmt :: "runtime \<Rightarrow> pyval \<Rightarrow> string" where
  "fmt rt (PStr s) = s"
| "fmt rt PNone = ''None''"
| "fmt rt (PBool b) = (if b then ''True'' else ''False'')"
| "fmt rt v = str_of rt v"

text \<open>\<^verbatim>\<open>type(v)\<close> as an f-string prints it.\<close>

fun type_name :: "pyval \<Rightarrow> string" where
  "type_name PNone = ''NoneType''"
| "type_name (PBool b) = ''bool''"
| "type_name (PInt i) = ''int''"
| "type_name (PFloat x) = ''float''"
| "type_name (PStr s) = ''str''"
| "type_name (PList xs) = ''list''"
| "type_name (PDict kvs) = ''dict''"

definition type_repr :: "pyval \<Rightarrow> string" where
  "type_repr v = ''<class '' @ SQ @ type_name v @ SQ @ ''>''"

fun is_str :: "pyval \<Rightarrow> bool" where
  "is_str (PStr s) = True"
| "is_str v = False"

text \<open>Truthiness, as \<^verbatim>\<open>if v:\<close> tests it.\<close>

fun truthy :: "pyval \<Rightarrow> bool" where
  "truthy PNone = False"
| "truthy (PBool b) = b"
| "truthy (PInt i) = (i \<noteq> 0)"
| "truthy (PFloat x) = (x \<noteq> 0)"
| "truthy (PStr s) = (s \<noteq> [])"
| "truthy (PList xs) = (xs \<noteq> [])"
| "truthy (PDict kvs) = (kvs \<noteq> [])"

text \<open>
  Iteration: a list yields its items, text its characters, a dictionary its keys;
  anything else raises \<^verbatim>\<open>TypeError\<close>.
\<close>

fun py_iter :: "pyval \<Rightarrow> exn + pyval list" where
  "py_iter (PList xs) = Inr xs"
| "py_iter (PStr s) = Inr (map (\<lambda>c. PStr [c]) s)"
| "py_iter (PDict kvs) = Inr (map (\<lambda>kv. PStr (fst kv)) kvs)"
| "py_iter v = Inl TypeError"

text \<open>
  The unpacking \<^verbatim>\<open>q, a = entry\<close>: \<^verbatim>\<open>ValueError\<close> unless the entry yields exactly two
  items.
\<close>

definition unpack2 :: "pyval \<Rightarrow> exn + (pyval \<times> pyval)" where
  "unpack2 v =
     (case py_iter v of
        Inl e \<Rightarrow> Inl e
      | Inr items \<Rightarrow>
          (case items of
             [q, a] \<Rightarrow> Inr (q, a)
           | _ \<Rightarrow> Inl ValueError))"

fun py_join :: "string \<Rightarrow> string list \<Rightarrow> string" where
  "py_join sep [] = []"
| "py_join sep [x] = x"
| "py_join sep (x # y # ys) = x @ sep @ py_join sep (y # ys)"

section \<open>The payload builder of gemini.espeak\_and\_piper.py\<close>

definition user_entry :: "pyval \<Rightarrow> pyval" where
  "user_entry t = PDict [(''role'', PStr ''user''), (''parts'', PList [PDict [(''text'', t)]])]"

definition model_entry :: "pyval \<Rightarrow> pyval" where
  "model_entry t = PDict [(''role'', PStr ''model''), (''parts'', PList [PDict [(''text'', t)]])]"

definition skip_warning :: "pyval \<Rightarrow> pyval \<Rightarrow> string" where
  "skip_warning q a =
     ''Warning: Skipping invalid history entry: ('' @ type_repr q @ '', '' @ type_repr a @ '')''"

text \<open>
  The loop \<^verbatim>\<open>for q, a in history\<close> of \<^verbatim>\<open>_format_gemini_payload\<close>. The state is the
  printed lines and the \<^verbatim>\<open>conversation\<close> list; an entry that does not unpack raises and
  ends the loop.
\<close>

fun history_loop :: "pyval list \<Rightarrow> string list \<times> pyval list \<Rightarrow> exn + (string list \<times> pyval list)" where
  "history_loop [] st = Inr st"
| "history_loop (e # es) (out, conversation) =
     (case unpack2 e of
        Inl x \<Rightarrow> Inl x
      | Inr (q, a) \<Rightarrow>
          (if is_str q \<and> is_str a
           then history_loop es (out, conversation @ [user_entry q, model_entry a])
           else history_loop es (out @ [skip_warning q a], conversation)))"

text \<open>
  The comprehension \<^verbatim>\<open>[f"User: {q}\nModel: {a}" for q, a in history]\<close>; the two labels
  are arguments because gemini.espeak.py has the same comprehension with
  \<^verbatim>\<open>Human:\<close> and \<^verbatim>\<open>AI:\<close>.
\<close>

fun context_lines :: "runtime \<Rightarrow> string \<Rightarrow> string \<Rightarrow> pyval list \<Rightarrow> exn + string list" where
  "context_lines rt lq la [] = Inr []"
| "context_lines rt lq la (e # es) =
     (case unpack2 e of
        Inl x \<Rightarrow> Inl x
      | Inr (q, a) \<Rightarrow>
          (case context_lines rt lq la es of
             Inl x \<Rightarrow> Inl x
           | Inr ls \<Rightarrow> Inr ((lq @ fmt rt q @ NL @ la @ fmt rt a) # ls)))"

text \<open>
  \<^verbatim>\<open>_format_gemini_payload(query, history, modifier)\<close> (Isabelle names cannot start
  with an underscore). The result is the printed warnings and the payload, or the
  exception that left the function.
\<close>

definition format_gemini_payload ::
  "runtime \<Rightarrow> string \<Rightarrow> pyval \<Rightarrow> string \<Rightarrow> exn + (string list \<times> pyval)" where
  "format_gemini_payload rt query history modifier =
     (case (if truthy history
            then (case py_iter history of
                    Inl x \<Rightarrow> Inl x
                  | Inr es \<Rightarrow> history_loop es ([], []))
            else Inr ([], [])) of
        Inl x \<Rightarrow> Inl x
      | Inr (out, conversation) \<Rightarrow>
          (case (if truthy history
                 then (case py_iter history of
                         Inl x \<Rightarrow> Inl x
                       | Inr es \<Rightarrow>
                           (case context_lines rt ''User: '' ''Model: '' es of
                              Inl x \<Rightarrow> Inl x
                            | Inr ls \<Rightarrow> Inr (py_join NL ls)))
                 else Inr ''None'') of
             Inl x \<Rightarrow> Inl x
           | Inr history_context \<Rightarrow>
               (let current_query_text =
                      (if \<not> truthy history
                       then (if modifier \<noteq> [] then modifier @ NL @ ''Query: '' @ query else query)
                       else modifier @ NL @ ''---'' @ NL @ ''Previous Context:'' @ NL
                            @ history_context @ NL @ ''---'' @ NL @ ''Current Query:'' @ NL @ query)
                in Inr (out, PDict [(''contents'',
                          PList (conversation @ [user_entry (PStr current_query_text)]))]))))"

text \<open>
  \<^verbatim>\<open>_format_gemini_payload\<close> of .old/gemini.espeak\_and\_piper1.py: the same loop over
  the history, and another wording of the final text.
\<close>

definition format_gemini_payload_old ::
  "runtime \<Rightarrow> string \<Rightarrow> pyval \<Rightarrow> string \<Rightarrow> exn + (string list \<times> pyval)" where
  "format_gemini_payload_old rt query history modifier =
     (case (if truthy history
            then (case py_iter history of
                    Inl x \<Rightarrow> Inl x
                  | Inr es \<Rightarrow> history_loop es ([], []))
            else Inr ([], [])) of
        Inl x \<Rightarrow> Inl x
      | Inr (out, conversation) \<Rightarrow>
          (case (if truthy history
                 then (case py_iter history of
                         Inl x \<Rightarrow> Inl x
                       | Inr es \<Rightarrow>
                           (case context_lines rt ''User: '' ''Model: '' es of
                              Inl x \<Rightarrow> Inl x
                            | Inr ls \<Rightarrow>
                                Inr (modifier @ NL @ ''---'' @ NL @ ''Previous Conversation Context:''
                                     @ NL @ py_join NL ls @ NL @ ''---'' @ NL @ ''Current Query:''
                                     @ NL @ query)))
                 else Inr (if modifier \<noteq> []
                           then modifier @ NL @ ''---'' @ NL @ ''Query:'' @ NL @ query
                           else query)) of
             Inl x \<Rightarrow> Inl x
           | Inr full_query \<Rightarrow>
               Inr (out, PDict [(''contents'',
                      PList (conversation @ [user_entry (PStr full_query)]))])))"

text \<open>
  History entries as the main loop builds them, \<^verbatim>\<open>[query, response]\<close>, and as a file
  that passed the shape check of \<^verbatim>\<open>/load\<close> may hold them: two items of any type.
\<close>

definition turn_entry :: "string \<times> string \<Rightarrow> pyval" where
  "turn_entry t = PList [PStr (fst t), PStr (snd t)]"

definition pair_entry :: "pyval \<times> pyval \<Rightarrow> pyval" where
  "pair_entry p = PList [fst p, snd p]"

definition well_typed :: "pyval \<times> pyval \<Rightarrow> bool" where
  "well_typed p = (is_str (fst p) \<and> is_str (snd p))"

definition turn_entries :: "pyval \<times> pyval \<Rightarrow> pyval list" where
  "turn_entries p = [user_entry (fst p), model_entry (snd p)]"

section \<open>The history update of the main loop\<close>

text \<open>
  The slice \<^verbatim>\<open>xs[i:]\<close>: a negative start counts from the end and is clamped at the
  beginning of the list.
\<close>

definition py_slice_from :: "int \<Rightarrow> 'a list \<Rightarrow> 'a list" where
  "py_slice_from i xs =
     (let n = int (length xs);
          start = (if i < 0 then max (n + i) 0 else min i n)
      in drop (nat start) xs)"

text \<open>
  Lines 271 to 274 of gemini.espeak\_and\_piper.py, under the comment
  \<^verbatim>\<open># Store interaction in history\<close>:
  \<^verbatim>\<open>if not response.startswith("Error:"): history.append([query, response]); history = history[-10:]\<close>.
  The two statements of the branch are \<open>append_and_trim\<close>.
\<close>

definition append_and_trim :: "pyval list \<Rightarrow> pyval \<Rightarrow> pyval list" where
  "append_and_trim history entry = py_slice_from (- 10) (history @ [entry])"

definition store_interaction :: "pyval list \<Rightarrow> string \<Rightarrow> string \<Rightarrow> pyval list" where
  "store_interaction history query response =
     (if \<not> prefix ''Error:'' response
      then append_and_trim history (PList [PStr query, PStr response])
      else history)"

section \<open>Transport\<close>

text \<open>
  \<^verbatim>\<open>response.raise_for_status()\<close> raises \<^verbatim>\<open>HTTPError\<close> for a status from 400 to 599.
\<close>

definition raise_for_status :: "response \<Rightarrow> exn + response" where
  "raise_for_status r =
     (if 400 \<le> status_code r \<and> status_code r < 600 then Inl (HTTPError r) else Inr r)"

text \<open>\<^verbatim>\<open>_call_gemini_api\<close> returns the response object or an error text.\<close>

datatype api_result = Response response | ErrorText string

text \<open>
  The request that \<^verbatim>\<open>_call_gemini_api(url, api_key, headers, data)\<close> of
  gemini.espeak\_and\_piper.py hands to \<^verbatim>\<open>requests.post\<close>.
\<close>

definition gemini_request :: "string \<Rightarrow> string \<Rightarrow> (string \<times> string) list \<Rightarrow> pyval \<Rightarrow> request" where
  "gemini_request url api_key headers data =
     \<lparr>req_url = url @ ''?key='' @ api_key, req_headers = headers, req_json = data,
      req_timeout = Some 60\<rparr>"

definition call_gemini_api ::
  "runtime \<Rightarrow> string \<Rightarrow> string \<Rightarrow> (string \<times> string) list \<Rightarrow> pyval \<Rightarrow> exn + api_result" where
  "call_gemini_api rt url api_key headers data =
     (case (case post rt (gemini_request url api_key headers data) of
              Inl e \<Rightarrow> Inl e
            | Inr response \<Rightarrow> raise_for_status response) of
        Inr response \<Rightarrow> Inr (Response response)
      | Inl e \<Rightarrow>
          (case e of
             Timeout \<Rightarrow> Inr (ErrorText ''Error: API request timed out.'')
           | _ \<Rightarrow>
               (if is_RequestException e
                then Inr (ErrorText (''Error communicating with API: '' @ exn_str rt e))
                else Inl e)))"

section \<open>Traversing decoded JSON\<close>

text \<open>Sequencing of steps that may raise: the first exception ends the computation.\<close>

definition bnd :: "exn + 'a \<Rightarrow> ('a \<Rightarrow> exn + 'b) \<Rightarrow> exn + 'b" where
  "bnd m f = (case m of Inl e \<Rightarrow> Inl e | Inr x \<Rightarrow> f x)"

fun map_exn :: "('a \<Rightarrow> exn + 'b) \<Rightarrow> 'a list \<Rightarrow> exn + 'b list" where
  "map_exn f [] = Inr []"
| "map_exn f (x # xs) = bnd (f x) (\<lambda>y. bnd (map_exn f xs) (\<lambda>ys. Inr (y # ys)))"

text \<open>\<^verbatim>\<open>v.get(k, d)\<close>: only a dictionary has the method.\<close>

fun py_get :: "pyval \<Rightarrow> string \<Rightarrow> pyval \<Rightarrow> exn + pyval" where
  "py_get (PDict kvs) k d = Inr (case map_of kvs k of None \<Rightarrow> d | Some v \<Rightarrow> v)"
| "py_get v k d = Inl AttributeError"

text \<open>\<^verbatim>\<open>v[i]\<close> for a literal index \<open>i \<ge> 0\<close>.\<close>

fun py_index :: "pyval \<Rightarrow> nat \<Rightarrow> exn + pyval" where
  "py_index (PList xs) i = (if i < length xs then Inr (xs ! i) else Inl IndexError)"
| "py_index (PStr s) i = (if i < length s then Inr (PStr [s ! i]) else Inl IndexError)"
| "py_index (PDict kvs) i = Inl KeyError"
| "py_index v i = Inl TypeError"

text \<open>\<^verbatim>\<open>v['key']\<close>.\<close>

fun py_item :: "pyval \<Rightarrow> string \<Rightarrow> exn + pyval" where
  "py_item (PDict kvs) k = (case map_of kvs k of None \<Rightarrow> Inl KeyError | Some v \<Rightarrow> Inr v)"
| "py_item v k = Inl TypeError"

text \<open>
  \<^verbatim>\<open>'key' in v\<close>: key membership in a dictionary, element membership in a list,
  substring test in text.
\<close>

fun py_in :: "string \<Rightarrow> pyval \<Rightarrow> exn + bool" where
  "py_in k (PDict kvs) = Inr (map_of kvs k \<noteq> None)"
| "py_in k (PList xs) = Inr (List.member xs (PStr k))"
| "py_in k (PStr s) = Inr (sublist k s)"
| "py_in k v = Inl TypeError"

text \<open>\<^verbatim>\<open>response.json()\<close>.\<close>

definition response_json :: "runtime \<Rightarrow> response \<Rightarrow> exn + pyval" where
  "response_json rt r =
     (case json_loads rt (body_text r) of None \<Rightarrow> Inl JSONDecodeError | Some v \<Rightarrow> Inr v)"

subsection \<open>Text methods\<close>

text \<open>
  A \<^typ>\<open>char\<close> is read as the code point of the same number. Below 256, Python's
  whitespace is 9 to 13, 28 to 32, 133 and 160, and \<^verbatim>\<open>splitlines\<close> breaks at 10 to 13,
  28 to 30 and 133, taking a carriage return followed by a line feed as one break.
\<close>

definition is_space :: "char \<Rightarrow> bool" where
  "is_space c = (of_char c \<in> {9, 10, 11, 12, 13, 28, 29, 30, 31, 32, 133, 160 :: nat})"

definition is_linebreak :: "char \<Rightarrow> bool" where
  "is_linebreak c = (of_char c \<in> {10, 11, 12, 13, 28, 29, 30, 133 :: nat})"

definition strip :: "string \<Rightarrow> string" where
  "strip s = rev (dropWhile is_space (rev (dropWhile is_space s)))"

fun splitlines_from :: "string \<Rightarrow> string \<Rightarrow> string list" where
  "splitlines_from cur [] = (if cur = [] then [] else [cur])"
| "splitlines_from cur [c] = (if is_linebreak c then [cur] else [cur @ [c]])"
| "splitlines_from cur (c # d # cs) =
     (if c = CHR 0x0D \<and> d = CHR 0x0A then cur # splitlines_from [] cs
      else if is_linebreak c then cur # splitlines_from [] (d # cs)
      else splitlines_from (cur @ [c]) (d # cs))"

definition splitlines :: "string \<Rightarrow> string list" where
  "splitlines s = splitlines_from [] s"

text \<open>\<^verbatim>\<open>s.split()\<close>: the maximal runs of characters that are not whitespace.\<close>

fun split_from :: "string \<Rightarrow> string \<Rightarrow> string list" where
  "split_from cur [] = (if cur = [] then [] else [cur])"
| "split_from cur (c # cs) =
     (if is_space c
      then (if cur = [] then split_from [] cs else cur # split_from [] cs)
      else split_from (cur @ [c]) cs)"

definition py_split :: "string \<Rightarrow> string list" where
  "py_split s = split_from [] s"

text \<open>\<^verbatim>\<open>v.strip()\<close> on a value: only text has the method.\<close>

fun py_strip :: "pyval \<Rightarrow> exn + string" where
  "py_strip (PStr s) = Inr (strip s)"
| "py_strip v = Inl AttributeError"

fun the_str :: "pyval \<Rightarrow> string" where
  "the_str (PStr s) = s"
| "the_str v = []"

text \<open>
  \<^verbatim>\<open>"".join(part.get('text', '') for part in parts)\<close>: \<^verbatim>\<open>join\<close> first runs the generator
  to its end, so a part without \<^verbatim>\<open>get\<close> raises first; then an item that is not text
  raises \<^verbatim>\<open>TypeError\<close>.
\<close>

definition join_parts_text :: "pyval \<Rightarrow> exn + string" where
  "join_parts_text parts =
     bnd (py_iter parts) (\<lambda>ps.
     bnd (map_exn (\<lambda>part. py_get part ''text'' (PStr [])) ps) (\<lambda>vs.
       if list_all is_str vs then Inr (concat (map the_str vs)) else Inl TypeError))"

section \<open>The response parser of .old/gemini.espeak\_and\_piper1.py\<close>

text \<open>
  \<^verbatim>\<open>_parse_gemini_response\<close> is embedded stage by stage, in the order of the source.
  A stage that returns gives \<open>Some\<close> of the returned text. What the function prints is
  not tracked.
\<close>

text \<open>Lines 100 to 103: the top-level \<^verbatim>\<open>error\<close> field is looked at first.\<close>

definition top_level_error :: "runtime \<Rightarrow> pyval \<Rightarrow> exn + string option" where
  "top_level_error rt response_data =
     bnd (py_get response_data ''error'' PNone) (\<lambda>api_error.
       if truthy api_error
       then bnd (py_get api_error ''message'' (PStr ''Unknown API error'')) (\<lambda>message.
            bnd (py_get api_error ''code'' (PStr ''N/A'')) (\<lambda>code.
              Inr (Some (''Error from API: '' @ fmt rt message @ '' (Code: '' @ fmt rt code @ '')''))))
       else Inr None)"

text \<open>Lines 105 to 115: the prompt feedback, whether or not there are candidates.\<close>

definition prompt_blocked :: "runtime \<Rightarrow> pyval \<Rightarrow> exn + string option" where
  "prompt_blocked rt response_data =
     bnd (py_get response_data ''promptFeedback'' PNone) (\<lambda>prompt_feedback.
       if truthy prompt_feedback
       then bnd (py_get prompt_feedback ''blockReason'' PNone) (\<lambda>block_reason.
              if truthy block_reason \<and> block_reason \<noteq> PStr ''BLOCK_REASON_UNSPECIFIED''
              then bnd (py_get prompt_feedback ''safetyRatings'' PNone) (\<lambda>safety_ratings.
                     Inr (Some (''Error: Response blocked due to content policy (default). Reason: ''
                                @ fmt rt block_reason @ ''.'')))
              else Inr None)
       else Inr None)"

text \<open>Lines 135 to 144: the text of the candidate's content.\<close>

definition extract_text :: "pyval \<Rightarrow> exn + string" where
  "extract_text content =
     (if truthy content
      then bnd (py_in ''parts'' content) (\<lambda>has_parts.
           bnd (if has_parts then bnd (py_item content ''parts'') (\<lambda>parts. Inr (truthy parts))
                else Inr False) (\<lambda>use_parts.
             if use_parts
             then bnd (py_item content ''parts'') (\<lambda>parts.
                  bnd (join_parts_text parts) (\<lambda>joined. Inr (strip joined)))
             else bnd (py_in ''text'' content) (\<lambda>has_text.
                    if has_text then bnd (py_item content ''text'') py_strip else Inr [])))
      else Inr [])"

text \<open>Lines 146 to 181: the checks on the finish reason after the extraction.\<close>

definition finish_checks :: "runtime \<Rightarrow> pyval \<Rightarrow> pyval \<Rightarrow> pyval \<Rightarrow> string \<Rightarrow> string option" where
  "finish_checks rt candidate finish_reason safety_ratings txt =
     (if truthy finish_reason \<and> finish_reason \<noteq> PStr ''STOP''
         \<and> finish_reason \<noteq> PStr ''FINISH_REASON_UNSPECIFIED''
      then (if finish_reason = PStr ''MAX_TOKENS''
            then (if txt \<noteq> []
                  then Some (''Warning: MAX_TOKENS limit reached. Output may be incomplete.''
                             @ NL @ ''---'' @ NL @ txt)
                  else Some (''Error: Candidate finished due to maximum token limit (''
                             @ fmt rt finish_reason @ ''). No partial content extracted.''))
            else if finish_reason = PStr ''SAFETY''
            then (let ratings_str =
                        (if truthy safety_ratings then json_dumps rt None safety_ratings else ''N/A'')
                  in if txt \<noteq> []
                     then Some (''Warning: SAFETY block triggered. Output may be filtered or incomplete.''
                                @ NL @ ''---'' @ NL @ txt)
                     else Some (''Error: Candidate content blocked due to safety (default policy - ''
                                @ fmt rt finish_reason @ ''). Ratings: '' @ ratings_str))
            else (if txt \<noteq> []
                  then Some (''Warning: Unexpected finish reason ('' @ fmt rt finish_reason
                             @ ''). Output may be incomplete.'' @ NL @ ''---'' @ NL @ txt)
                  else Some (''Error: Candidate finished unexpectedly. Reason: '' @ fmt rt finish_reason
                             @ ''. Safety Ratings: '' @ fmt rt safety_ratings)))
      else if finish_reason = PStr ''STOP'' \<and> txt = []
      then Some ''Warning: Received response with no content (finish reason: STOP).''
      else if txt = [] \<and> finish_reason \<noteq> PStr ''STOP''
      then Some (''Error: Failed to extract text content from candidate. Finish Reason: ''
                 @ fmt rt finish_reason @ ''. Candidate: '' @ json_dumps rt None candidate)
      else None)"

text \<open>Lines 183 to 193: the removal of a surrounding markdown code fence.\<close>

definition clean_code_fences :: "string \<Rightarrow> string" where
  "clean_code_fences txt =
     (if prefix ''```'' txt \<and> suffix ''```'' txt
      then (let lines = splitlines txt
            in if length lines > 1
               then (let first_line_content = strip (drop 3 (strip (hd lines)))
                     in if length (py_split first_line_content) \<le> 1
                        then strip (py_join NL (butlast (tl lines)))
                        else txt)
               else txt)
      else txt)"

text \<open>The body of the \<^verbatim>\<open>try\<close> block once the response has been decoded.\<close>

definition parse_response_data :: "runtime \<Rightarrow> pyval \<Rightarrow> exn + string" where
  "parse_response_data rt response_data =
     bnd (top_level_error rt response_data) (\<lambda>err.
       case err of
         Some s \<Rightarrow> Inr s
       | None \<Rightarrow>
           bnd (prompt_blocked rt response_data) (\<lambda>blocked.
             case blocked of
               Some s \<Rightarrow> Inr s
             | None \<Rightarrow>
                 bnd (py_get response_data ''candidates'' PNone) (\<lambda>candidates.
                   if \<not> truthy candidates
                   then Inr (''Error: No candidates found in response and no blocking reason identified. Response JSON: ''
                             @ json_dumps rt None response_data)
                   else bnd (py_index candidates 0) (\<lambda>candidate.
                          if \<not> truthy candidate
                          then Inr (''Error: Received empty or invalid candidate list. Response JSON: ''
                                    @ json_dumps rt None response_data)
                          else bnd (py_get candidate ''finishReason'' PNone) (\<lambda>finish_reason.
                               bnd (py_get candidate ''safetyRatings'' PNone) (\<lambda>safety_ratings.
                               bnd (py_get candidate ''content'' PNone) (\<lambda>content.
                               bnd (extract_text content) (\<lambda>txt.
                                 case finish_checks rt candidate finish_reason safety_ratings txt of
                                   Some s \<Rightarrow> Inr s
                                 | None \<Rightarrow> Inr (clean_code_fences txt)))))))))"

text \<open>
  \<^verbatim>\<open>_parse_gemini_response(response)\<close>: an error text from the transport passes
  through; the three handlers of the \<^verbatim>\<open>try\<close> block turn every exception into a text.
\<close>

definition parse_gemini_response :: "runtime \<Rightarrow> api_result \<Rightarrow> string" where
  "parse_gemini_response rt response =
     (case response of
        ErrorText s \<Rightarrow> s
      | Response r \<Rightarrow>
          (case json_loads rt (body_text r) of
             None \<Rightarrow> ''Error decoding API response JSON: '' @ exn_str rt JSONDecodeError
                     @ ''. Response text: '' @ take 500 (body_text r) @ ''...''
           | Some response_data \<Rightarrow>
               (case parse_response_data rt response_data of
                  Inr s \<Rightarrow> s
                | Inl e \<Rightarrow>
                    (case e of
                       IndexError \<Rightarrow>
                         ''Error processing API response: Invalid candidate structure. Response JSON slice: ''
                         @ take 500 (fmt rt response_data)
                     | _ \<Rightarrow>
                         ''Error processing API response structure: '' @ exn_str rt e
                         @ ''. Response JSON slice: '' @ take 500 (fmt rt response_data)))))"

section \<open>generate\_text of gen\_ai\_console/gemini\_handler.py\<close>

text \<open>
  The body of the \<^verbatim>\<open>try\<close> block, in three parts: the condition of line 35, the
  branch that returns the text (lines 36 to 48) and the branch that reports a blocked
  prompt or an unexpected structure (lines 50 to 56). The calls to the logger and the
  test for refusal phrases, which only logs, have no part in the returned value and
  are left out.
\<close>

definition candidate_has_parts :: "pyval \<Rightarrow> exn + bool" where
  "candidate_has_parts candidates =
     (if truthy candidates
      then bnd (py_index candidates 0) (\<lambda>c0.
           bnd (py_get c0 ''content'' (PDict [])) (\<lambda>content.
           bnd (py_get content ''parts'' PNone) (\<lambda>parts. Inr (truthy parts))))
      else Inr False)"

definition candidate_text :: "pyval \<Rightarrow> exn + string" where
  "candidate_text candidates =
     bnd (py_index candidates 0) (\<lambda>c0.
     bnd (py_item c0 ''content'') (\<lambda>content.
     bnd (py_item content ''parts'') (\<lambda>text_parts.
     bnd (join_parts_text text_parts) (\<lambda>joined.
       let full_text = strip joined
       in if full_text \<noteq> []
          then Inr full_text
          else Inr ''Error: Received an empty response from the model.''))))"

definition no_candidate_text :: "runtime \<Rightarrow> pyval \<Rightarrow> exn + string" where
  "no_candidate_text rt response_data =
     bnd (py_get response_data ''promptFeedback'' PNone) (\<lambda>prompt_feedback.
     bnd (if truthy prompt_feedback
          then bnd (py_get prompt_feedback ''blockReason'' PNone) (\<lambda>b. Inr (truthy b))
          else Inr False) (\<lambda>blocked.
       if blocked
       then bnd (py_item prompt_feedback ''blockReason'') (\<lambda>reason.
              Inr (''Error: Your request was blocked by the API. Reason: '' @ fmt rt reason))
       else Inr ''Error: Could not parse the response from the model.''))"

definition generate_text_try ::
  "runtime \<Rightarrow> string \<Rightarrow> (string \<times> string) list \<Rightarrow> pyval \<Rightarrow> exn + string" where
  "generate_text_try rt url headers data =
     bnd (post rt \<lparr>req_url = url, req_headers = headers, req_json = data, req_timeout = Some 90\<rparr>)
       (\<lambda>response.
     bnd (raise_for_status response) (\<lambda>response.
     bnd (response_json rt response) (\<lambda>response_data.
     bnd (py_get response_data ''candidates'' PNone) (\<lambda>candidates.
     bnd (candidate_has_parts candidates) (\<lambda>has_parts.
       if has_parts then candidate_text candidates
       else no_candidate_text rt response_data)))))"

text \<open>
  \<^verbatim>\<open>generate_text(api_key, model_name, prompt, history)\<close>. The history is a list
  (\<^verbatim>\<open>None\<close>, the default, behaves as the empty list). The three handlers are tried in
  the order of the source.
\<close>

definition generate_text :: "runtime \<Rightarrow> string \<Rightarrow> string \<Rightarrow> string \<Rightarrow> pyval list \<Rightarrow> exn + string" where
  "generate_text rt api_key model_name prompt history =
     (let url = ''https://generativelanguage.googleapis.com/v1beta/models/'' @ model_name
                @ '':generateContent?key='' @ api_key;
          headers = [(''Content-Type'', ''application/json'')];
          contents = (if history \<noteq> [] then history else []) @ [user_entry (PStr prompt)];
          data = PDict [(''contents'', PList contents),
                        (''generationConfig'',
                           PDict [(''temperature'', PFloat (6 / 10)), (''maxOutputTokens'', PInt 2048)])]
      in case generate_text_try rt url headers data of
           Inr s \<Rightarrow> Inr s
         | Inl e \<Rightarrow>
             (case e of
                HTTPError r \<Rightarrow>
                  Inr (''Error: API request failed (Status '' @ fmt rt (PInt (int (status_code r))) @ '').'')
              | _ \<Rightarrow>
                  (if is_RequestException e
                   then Inr (''Error: Could not connect to the API. ('' @ exn_str rt e @ '')'')
                   else Inr (''Error: An unexpected error occurred. ('' @ exn_str rt e @ '')''))))"

section \<open>The exchange of gemini.espeak\_and\_piper.py\<close>

text \<open>\<^verbatim>\<open>len(v)\<close>.\<close>

fun py_len :: "pyval \<Rightarrow> exn + nat" where
  "py_len (PList xs) = Inr (length xs)"
| "py_len (PStr s) = Inr (length s)"
| "py_len (PDict kvs) = Inr (length kvs)"
| "py_len v = Inl TypeError"

text \<open>
  \<^verbatim>\<open>_parse_gemini_response\<close> of gemini.espeak\_and\_piper.py (lines 50 to 95), which
  differs from the parser of the older file. First the body of its \<^verbatim>\<open>try\<close> block once
  the response has been decoded. The returned value is a text or, where the body holds
  something else at \<^verbatim>\<open>text\<close>, that value.
\<close>

definition parse_main_data :: "runtime \<Rightarrow> pyval \<Rightarrow> exn + pyval" where
  "parse_main_data rt response_data =
     bnd (py_get response_data ''candidates'' PNone) (\<lambda>candidates.
       if \<not> truthy candidates
       then bnd (py_get response_data ''promptFeedback'' PNone) (\<lambda>prompt_feedback.
              if truthy prompt_feedback
              then bnd (py_get prompt_feedback ''blockReason'' PNone) (\<lambda>block_reason.
                   bnd (py_get prompt_feedback ''safetyRatings'' PNone) (\<lambda>safety_ratings.
                     Inr (PStr (''Error: Response blocked. Reason: '' @ fmt rt block_reason
                                @ ''. Ratings: '' @ fmt rt safety_ratings))))
              else bnd (py_get response_data ''error'' PNone) (\<lambda>api_error.
                     if truthy api_error
                     then bnd (py_get api_error ''message'' (PStr ''Unknown API error'')) (\<lambda>message.
                            Inr (PStr (''Error from API: '' @ fmt rt message)))
                     else Inr (PStr (''Error: No candidates found in response. Response JSON: ''
                                     @ fmt rt response_data))))
       else bnd (py_index candidates 0) (\<lambda>c0.
              if \<not> truthy c0
              then Inr (PStr ''Error: Received empty candidate.'')
              else bnd (py_get c0 ''content'' PNone) (\<lambda>content.
                     if \<not> truthy content
                     then bnd (py_get c0 ''finishReason'' PNone) (\<lambda>finish_reason.
                          bnd (py_get c0 ''safetyRatings'' PNone) (\<lambda>safety_ratings.
                            if truthy finish_reason \<and> finish_reason \<noteq> PStr ''STOP''
                            then Inr (PStr (''Error: Candidate finished unexpectedly. Reason: ''
                                            @ fmt rt finish_reason @ ''. Safety Ratings: ''
                                            @ fmt rt safety_ratings))
                            else Inr (PStr ''Error: No content found in candidate.'')))
                     else bnd (py_get content ''parts'' PNone) (\<lambda>parts.
                            if \<not> truthy parts
                            then bnd (py_get content ''text'' PNone) (\<lambda>text_direct.
                                   if truthy text_direct then Inr text_direct
                                   else Inr (PStr ''Error: No parts found in content.''))
                            else bnd (py_index parts 0) (\<lambda>p0.
                                 bnd (py_get p0 ''text'' (PStr [])) (\<lambda>txt.
                                   if \<not> truthy txt
                                   then bnd (py_len parts) (\<lambda>n.
                                          if n = 0
                                          then Inr (PStr ''Warning: Received content with zero parts.'')
                                          else Inr (PStr ''Warning: Empty text received in the first part.''))
                                   else Inr txt))))))"

definition parse_gemini_response_main :: "runtime \<Rightarrow> api_result \<Rightarrow> pyval" where
  "parse_gemini_response_main rt response =
     (case response of
        ErrorText s \<Rightarrow> PStr s
      | Response r \<Rightarrow>
          (case json_loads rt (body_text r) of
             None \<Rightarrow> PStr (''Error decoding API response JSON: '' @ exn_str rt JSONDecodeError
                           @ ''. Response text: '' @ take 500 (body_text r) @ ''...'')
           | Some response_data \<Rightarrow>
               (case parse_main_data rt response_data of
                  Inr v \<Rightarrow> v
                | Inl e \<Rightarrow>
                    PStr (''Error processing API response structure: '' @ exn_str rt e
                          @ ''. Response JSON: '' @ take 500 (fmt rt response_data)))))"

text \<open>
  \<^verbatim>\<open>get_gemini_response(query, history, modifier)\<close> of gemini.espeak\_and\_piper.py
  (lines 98 to 110). The warnings that the payload builder prints are dropped here.
\<close>

definition get_gemini_response :: "runtime \<Rightarrow> string \<Rightarrow> pyval \<Rightarrow> string \<Rightarrow> exn + pyval" where
  "get_gemini_response rt query history modifier =
     (case getenv rt ''GEMINI_API_KEY'' of
        None \<Rightarrow> Inl ValueError
      | Some api_key \<Rightarrow>
          (if api_key = [] then Inl ValueError
           else (let url = ''https://generativelanguage.googleapis.com/v1beta/models/gemini-2.5-pro-exp-03-25:generateContent'';
                     headers = [(''Content-Type'', ''application/json'')]
                 in bnd (format_gemini_payload rt query history modifier) (\<lambda>built.
                    bnd (call_gemini_api rt url api_key headers (snd built)) (\<lambda>api_response.
                      Inr (parse_gemini_response_main rt api_response))))))"

text \<open>
  One exchange of the loop of \<^verbatim>\<open>main\<close> (lines 268 to 274): the response is fetched and
  the interaction stored. \<^verbatim>\<open>response.startswith\<close> raises \<^verbatim>\<open>AttributeError\<close> on a
  response that is not text. An exception reaches the handlers of the loop, which leave
  the history as it was.
\<close>

definition main_exchange :: "runtime \<Rightarrow> pyval list \<Rightarrow> string \<Rightarrow> string \<Rightarrow> exn + pyval list" where
  "main_exchange rt history query modifier =
     bnd (get_gemini_response rt query (PList history) modifier) (\<lambda>response.
       case response of
         PStr s \<Rightarrow> Inr (store_interaction history query s)
       | _ \<Rightarrow> Inl AttributeError)"

section \<open>gemini.espeak.py\<close>

text \<open>
  \<^verbatim>\<open>get_gemini_response(query, conversation_history, response_modifier)\<close> of
  gemini.espeak.py: no \<^verbatim>\<open>try\<close>, and no \<^verbatim>\<open>timeout\<close> argument in the call of
  \<^verbatim>\<open>requests.post\<close>. The returned value is whatever the body holds at
  \<^verbatim>\<open>['candidates'][0]['content']['parts'][0]['text']\<close>, or an error text.
\<close>

definition espeak_get_gemini_response ::
  "runtime \<Rightarrow> string \<Rightarrow> pyval list \<Rightarrow> string \<Rightarrow> exn + pyval" where
  "espeak_get_gemini_response rt query conversation_history response_modifier =
     (let url = ''https://generativelanguage.googleapis.com/v1beta/models/gemini-2.0-flash-exp:generateContent''
      in case getenv rt ''GEMINI_API_KEY'' of
           None \<Rightarrow> Inl ValueError
         | Some api_key \<Rightarrow>
             (if api_key = [] then Inl ValueError
              else bnd (context_lines rt ''Human: '' ''AI: '' conversation_history) (\<lambda>ls.
                   let history_text = py_join NL ls;
                       full_query = response_modifier @ NL @ NL @ ''Conversation history:'' @ NL
                                    @ history_text @ NL @ NL @ ''Current query: '' @ query;
                       headers = [(''Content-Type'', ''application/json'')];
                       data = PDict [(''contents'',
                                PList [PDict [(''parts'', PList [PDict [(''text'', PStr full_query)]])]])]
                   in bnd (post rt \<lparr>req_url = url @ ''?key='' @ api_key, req_headers = headers,
                                     req_json = data, req_timeout = None\<rparr>) (\<lambda>response.
                        if status_code response = 200
                        then bnd (response_json rt response) (\<lambda>d.
                             bnd (py_item d ''candidates'') (\<lambda>cs.
                             bnd (py_index cs 0) (\<lambda>c0.
                             bnd (py_item c0 ''content'') (\<lambda>content.
                             bnd (py_item content ''parts'') (\<lambda>parts.
                             bnd (py_index parts 0) (\<lambda>p0. py_item p0 ''text''))))))
                        else Inr (PStr (''Error: '' @ fmt rt (PInt (int (status_code response)))
                                        @ '' - '' @ body_text response))))))"

text \<open>
  One turn of the loop of \<^verbatim>\<open>main\<close> in gemini.espeak.py (lines 137 to 141): the pair
  of query and response is appended whatever the response is.
\<close>

definition espeak_main_turn :: "runtime \<Rightarrow> string \<Rightarrow> pyval list \<Rightarrow> string \<Rightarrow> exn + pyval list" where
  "espeak_main_turn rt user_query conversation_history response_modifier =
     bnd (espeak_get_gemini_response rt user_query conversation_history response_modifier)
       (\<lambda>response. Inr (conversation_history @ [PList [PStr user_query, response]]))"

section \<open>Saving and loading the history\<close>

subsection \<open>The JSON text of a history\<close>

text \<open>
  The history file is written by \<^verbatim>\<open>json.dump(history, f, indent=2)\<close> and read by
  \<^verbatim>\<open>json.load(f)\<close>. Both are modelled for the values a history is made of, texts and
  lists; a text is a list of 8-bit characters, standing for the code points 0 to 255.
  \<open>json_encode\<close> at nesting level \<open>l\<close> follows the encoder with its defaults
  \<^verbatim>\<open>ensure_ascii=True\<close> and, under an indent, the separator \<^verbatim>\<open>','\<close>: a text is quoted,
  with the short escapes for the quote, the backslash, newline, carriage return, tab,
  backspace and form feed, and \<^verbatim>\<open>\u00xx\<close> (lower-case digits) for every other character
  outside the range from the space to the tilde; an empty list is \<^verbatim>\<open>[]\<close>, and the items
  of another list stand on lines of their own, indented by two spaces for each level.
\<close>

abbreviation QT :: char where
  "QT \<equiv> CHR 0x22"

abbreviation BS :: char where
  "BS \<equiv> CHR 0x5C"

fun covered :: "pyval \<Rightarrow> bool" where
  "covered (PStr s) = True"
| "covered (PList xs) = list_all covered xs"
| "covered v = False"

definition hex_digit :: "nat \<Rightarrow> char" where
  "hex_digit d = (if d < 10 then char_of (48 + d) else char_of (87 + d))"

definition escape_char :: "char \<Rightarrow> string" where
  "escape_char c =
     (if c = QT then [BS, QT]
      else if c = BS then [BS, BS]
      else if c = CHR 0x0A then [BS, CHR ''n'']
      else if c = CHR 0x0D then [BS, CHR ''r'']
      else if c = CHR 0x09 then [BS, CHR ''t'']
      else if c = CHR 0x08 then [BS, CHR ''b'']
      else if c = CHR 0x0C then [BS, CHR ''f'']
      else if 32 \<le> (of_char c :: nat) \<and> (of_char c :: nat) \<le> 126 then [c]
      else [BS, CHR ''u'', CHR ''0'', CHR ''0'',
            hex_digit ((of_char c :: nat) div 16), hex_digit ((of_char c :: nat) mod 16)])"

definition encode_str :: "string \<Rightarrow> string" where
  "encode_str s = QT # concat (map escape_char s) @ [QT]"

definition indent_of :: "nat \<Rightarrow> string" where
  "indent_of l = replicate (2 * l) (CHR '' '')"

fun json_encode :: "nat \<Rightarrow> pyval \<Rightarrow> string" where
  "json_encode l (PStr s) = encode_str s"
| "json_encode l (PList xs) =
     (if xs = [] then ''[]''
      else ''['' @ NL @ indent_of (Suc l)
           @ py_join ('','' @ NL @ indent_of (Suc l)) (map (json_encode (Suc l)) xs)
           @ NL @ indent_of l @ '']'')"
| "json_encode l v = []"

text \<open>
  \<open>json_dump\<close> is \<^verbatim>\<open>json.dump(v, f, indent=2)\<close>: the text written, and \<open>None\<close> for a value
  with a part that is neither a text nor a list, which the model does not encode.
\<close>

definition json_dump :: "pyval \<Rightarrow> string option" where
  "json_dump v = (if covered v then Some (json_encode 0 v) else None)"

text \<open>
  The decoder reads the text one character at a time, with a stack of the lists that
  are open, each holding the items read so far. \<open>Value\<close> expects a value, \<open>First\<close> a
  value or the closing bracket after an opening bracket, \<open>After\<close> a comma or a closing
  bracket after an item; \<open>InString\<close>, \<open>InEscape\<close> and \<open>InHex\<close> are inside a text, after a
  backslash and inside a \<^verbatim>\<open>\u\<close> escape (with the number of digits read and their value);
  \<open>End\<close> holds the document. \<open>Bad\<close> is a text that \<^verbatim>\<open>json.load\<close> refuses with a
  \<^verbatim>\<open>JSONDecodeError\<close>: a character that starts no value, a misplaced comma or bracket,
  a control character or an unknown escape inside a text, a digit of a \<^verbatim>\<open>\u\<close> escape that
  is not hexadecimal, anything but white space after the document. \<open>Beyond\<close> is a text
  with a part the model does not decode: an object, a number, \<^verbatim>\<open>true\<close>, \<^verbatim>\<open>false\<close>,
  \<^verbatim>\<open>null\<close>, \<^verbatim>\<open>NaN\<close>, \<^verbatim>\<open>Infinity\<close>, or an escape of a code point above 255.
\<close>

datatype phase = Value | First | After | InString string | InEscape string
  | InHex string nat nat | End pyval | Bad | Beyond

definition is_json_ws :: "char \<Rightarrow> bool" where
  "is_json_ws c = (c = CHR '' '' \<or> c = CHR 0x09 \<or> c = CHR 0x0A \<or> c = CHR 0x0D)"

definition hex_val :: "char \<Rightarrow> nat option" where
  "hex_val c =
     (let n = (of_char c :: nat)
      in if 48 \<le> n \<and> n \<le> 57 then Some (n - 48)
         else if 97 \<le> n \<and> n \<le> 102 then Some (n - 87)
         else if 65 \<le> n \<and> n \<le> 70 then Some (n - 55)
         else None)"

fun complete :: "pyval list list \<Rightarrow> pyval \<Rightarrow> pyval list list \<times> phase" where
  "complete [] v = ([], End v)"
| "complete (es # st) v = ((es @ [v]) # st, After)"

definition close_list :: "pyval list list \<Rightarrow> pyval list list \<times> phase" where
  "close_list st = (case st of [] \<Rightarrow> ([], Bad) | es # st' \<Rightarrow> complete st' (PList es))"

definition value_start :: "pyval list list \<Rightarrow> char \<Rightarrow> pyval list list \<times> phase" where
  "value_start st c =
     (if c = QT then (st, InString [])
      else if c = CHR ''['' then ([] # st, First)
      else if c \<in> set ''{-0123456789ntfNI'' then (st, Beyond)
      else (st, Bad))"

definition unescape :: "char \<Rightarrow> char option" where
  "unescape c =
     (if c = QT then Some QT
      else if c = BS then Some BS
      else if c = CHR ''/'' then Some (CHR ''/'')
      else if c = CHR ''b'' then Some (CHR 0x08)
      else if c = CHR ''f'' then Some (CHR 0x0C)
      else if c = CHR ''n'' then Some (CHR 0x0A)
      else if c = CHR ''r'' then Some (CHR 0x0D)
      else if c = CHR ''t'' then Some (CHR 0x09)
      else None)"

fun step :: "pyval list list \<times> phase \<Rightarrow> char \<Rightarrow> pyval list list \<times> phase" where
  "step (st, Value) c = (if is_json_ws c then (st, Value) else value_start st c)"
| "step (st, First) c =
     (if is_json_ws c then (st, First)
      else if c = CHR '']'' then close_list st
      else value_start st c)"
| "step (st, After) c =
     (if is_json_ws c then (st, After)
      else if c = CHR '','' then (st, Value)
      else if c = CHR '']'' then close_list st
      else (st, Bad))"
| "step (st, InString acc) c =
     (if c = QT then complete st (PStr acc)
      else if c = BS then (st, InEscape acc)
      else if (of_char c :: nat) < 32 then (st, Bad)
      else (st, InString (acc @ [c])))"
| "step (st, InEscape acc) c =
     (if c = CHR ''u'' then (st, InHex acc 0 0)
      else (case unescape c of None \<Rightarrow> (st, Bad) | Some x \<Rightarrow> (st, InString (acc @ [x]))))"
| "step (st, InHex acc k v) c =
     (case hex_val c of
        None \<Rightarrow> (st, Bad)
      | Some d \<Rightarrow>
          (if k = 3
           then (if 16 * v + d < 256 then (st, InString (acc @ [char_of (16 * v + d)]))
                 else (st, Beyond))
           else (st, InHex acc (Suc k) (16 * v + d))))"
| "step (st, End v) c = (if is_json_ws c then (st, End v) else (st, Bad))"
| "step (st, Bad) c = (st, Bad)"
| "step (st, Beyond) c = (st, Beyond)"

text \<open>
  \<open>json_load\<close> is \<^verbatim>\<open>json.load(f)\<close> on the text of the file: the value, \<open>Invalid\<close> for
  a \<^verbatim>\<open>JSONDecodeError\<close> (a text that ends inside a value or before one is a decode
  error as well), \<open>Unmodelled\<close> for a text with a part the model does not decode.
\<close>

datatype decoded = Decoded pyval | Invalid | Unmodelled

definition json_load :: "string \<Rightarrow> decoded" where
  "json_load s =
     (case snd (foldl step ([], Value) s) of
        End v \<Rightarrow> Decoded v
      | Beyond \<Rightarrow> Unmodelled
      | _ \<Rightarrow> Invalid)"

subsection \<open>The files\<close>

text \<open>
  A file system gives the text of each file that can be opened for reading and decoded
  as UTF-8 (\<open>None\<close> for a name that is no file, or no such file), and says which names
  can be opened for writing.
\<close>

record file_system =
  file_text :: "string \<Rightarrow> string option"
  writable :: "string \<Rightarrow> bool"

text \<open>
  \<^verbatim>\<open>/save\<close> of gemini.espeak\_and\_piper.py (lines 231 to 243), from
  \<^verbatim>\<open>filename = parts[1]\<close> on: the file is opened for writing and the history dumped into
  it; a failure to open it is caught and leaves the files as they are. The result is
  \<open>None\<close> when the history has a value that \<open>json_dump\<close> does not model.
\<close>

definition save_history :: "file_system \<Rightarrow> string \<Rightarrow> pyval list \<Rightarrow> file_system option" where
  "save_history fs filename history =
     (if writable fs filename
      then (case json_dump (PList history) of
              None \<Rightarrow> None
            | Some s \<Rightarrow> Some (fs\<lparr>file_text := (file_text fs)(filename \<mapsto> s)\<rparr>))
      else Some fs)"

fun is_list :: "pyval \<Rightarrow> bool" where
  "is_list (PList xs) = True"
| "is_list v = False"

fun list_len :: "pyval \<Rightarrow> nat" where
  "list_len (PList xs) = length xs"
| "list_len v = 0"

text \<open>
  \<^verbatim>\<open>/load\<close> of gemini.espeak\_and\_piper.py (lines 244 to 262), from
  \<^verbatim>\<open>filename = parts[1]\<close> on: the loaded value replaces the history when it is a list of
  two-element lists; a file that cannot be read, a decode error or another shape leaves
  the history as it was. The result is \<open>None\<close> when the file holds a text that
  \<open>json_load\<close> does not model.
\<close>

definition load_history :: "file_system \<Rightarrow> string \<Rightarrow> pyval list \<Rightarrow> pyval list option" where
  "load_history fs filename history =
     (case file_text fs filename of
        None \<Rightarrow> Some history
      | Some content \<Rightarrow>
          (case json_load content of
             Invalid \<Rightarrow> Some history
           | Unmodelled \<Rightarrow> None
           | Decoded loaded_history \<Rightarrow>
               (case loaded_history of
                  PList items \<Rightarrow>
                    (if list_all (\<lambda>item. is_list item \<and> list_len item = 2) items
                     then Some items else Some history)
                | _ \<Rightarrow> Some history)))"

subsection \<open>The commands of .old/code.py\<close>

text \<open>
  \<^verbatim>\<open>/save_hist\<close> and \<^verbatim>\<open>/load_hist\<close> of .old/code.py go through \<^verbatim>\<open>pathlib.Path\<close>.
  A POSIX path is a root (\<^verbatim>\<open>/\<close>, or \<^verbatim>\<open>//\<close> for exactly two leading slashes) and the
  components between the slashes, without the empty ones and the dots; \<open>Path_str\<close> is
  \<^verbatim>\<open>str(pathlib.Path(p))\<close> and \<open>Path_parent_str\<close> is \<^verbatim>\<open>str(pathlib.Path(p).parent)\<close>.
  \<open>lower_char\<close> is \<^verbatim>\<open>str.lower\<close> on one character of the range 0 to 255.
\<close>

definition lower_char :: "char \<Rightarrow> char" where
  "lower_char c =
     (let n = (of_char c :: nat)
      in if (65 \<le> n \<and> n \<le> 90) \<or> (192 \<le> n \<and> n \<le> 222 \<and> n \<noteq> 215) then char_of (n + 32) else c)"

fun split_sep :: "char \<Rightarrow> string \<Rightarrow> string list" where
  "split_sep d [] = [[]]"
| "split_sep d (c # cs) =
     (if c = d then [] # split_sep d cs
      else (case split_sep d cs of [] \<Rightarrow> [[c]] | x # xs \<Rightarrow> (c # x) # xs))"

definition path_root :: "string \<Rightarrow> string" where
  "path_root p =
     (if prefix ''//'' p \<and> \<not> prefix ''///'' p then ''//''
      else if prefix ''/'' p then ''/''
      else [])"

definition path_tail :: "string \<Rightarrow> string list" where
  "path_tail p = filter (\<lambda>x. x \<noteq> [] \<and> x \<noteq> ''.'') (split_sep (CHR ''/'') p)"

definition format_path :: "string \<Rightarrow> string list \<Rightarrow> string" where
  "format_path r parts = (if r = [] \<and> parts = [] then ''.'' else r @ py_join ''/'' parts)"

definition Path_str :: "string \<Rightarrow> string" where
  "Path_str p = format_path (path_root p) (path_tail p)"

definition Path_parent_str :: "string \<Rightarrow> string" where
  "Path_parent_str p =
     (if path_tail p = [] then Path_str p
      else format_path (path_root p) (butlast (path_tail p)))"

text \<open>
  \<^verbatim>\<open>/save_hist\<close> (lines 357 to 377), from \<^verbatim>\<open>filename = parts[1]\<close> on: a name that does
  not end in \<^verbatim>\<open>.json\<close>, in any case of the letters, gets this extension; a path whose
  parent is not the current directory is refused; a failure to open the file is caught.
\<close>

definition save_hist :: "file_system \<Rightarrow> string \<Rightarrow> pyval list \<Rightarrow> file_system option" where
  "save_hist fs filename history =
     (let filename = (if \<not> suffix ''.json'' (map lower_char filename)
                      then filename @ ''.json'' else filename)
      in if Path_parent_str filename \<noteq> ''.'' then Some fs
         else if writable fs (Path_str filename)
         then (case json_dump (PList history) of
                 None \<Rightarrow> None
               | Some s \<Rightarrow> Some (fs\<lparr>file_text := (file_text fs)(Path_str filename \<mapsto> s)\<rparr>))
         else Some fs)"

text \<open>
  \<^verbatim>\<open>/load_hist\<close> (lines 379 to 407): both items of every entry must be text, and the
  last \<^verbatim>\<open>MAX_HISTORY\<close> entries are kept.
\<close>

definition MAX_HISTORY :: nat where
  "MAX_HISTORY = 10"

fun is_text_pair :: "pyval \<Rightarrow> bool" where
  "is_text_pair (PList [PStr q, PStr a]) = True"
| "is_text_pair v = False"

definition load_hist :: "file_system \<Rightarrow> string \<Rightarrow> pyval list \<Rightarrow> pyval list option" where
  "load_hist fs filename history =
     (case file_text fs (Path_str filename) of
        None \<Rightarrow> Some history
      | Some content \<Rightarrow>
          (case json_load content of
             Invalid \<Rightarrow> Some history
           | Unmodelled \<Rightarrow> None
           | Decoded loaded_history \<Rightarrow>
               (case loaded_history of
                  PList items \<Rightarrow>
                    (if list_all is_text_pair items
                     then Some (py_slice_from (- int MAX_HISTORY) items) else Some history)
                | _ \<Rightarrow> Some history)))"

section \<open>The text of the final entry\<close>

text \<open>
  The text that \<^verbatim>\<open>_format_gemini_payload\<close> puts in the final entry when every entry of
  the history is a two-element list, written out for the proofs.
\<close>

definition final_text :: "runtime \<Rightarrow> string \<Rightarrow> (pyval \<times> pyval) list \<Rightarrow> string \<Rightarrow> string" where
  "final_text rt query ps modifier =
     (if ps = [] then (if modifier \<noteq> [] then modifier @ NL @ ''Query: '' @ query else query)
      else modifier @ NL @ ''---'' @ NL @ ''Previous Context:'' @ NL
           @ py_join NL (map (\<lambda>p. ''User: '' @ fmt rt (fst p) @ NL @ ''Model: '' @ fmt rt (snd p)) ps)
           @ NL @ ''---'' @ NL @ ''Current Query:'' @ NL @ query)"

definition final_text_old :: "runtime \<Rightarrow> string \<Rightarrow> (pyval \<times> pyval) list \<Rightarrow> string \<Rightarrow> string" where
  "final_text_old rt query ps modifier =
     (if ps = []
      then (if modifier \<noteq> [] then modifier @ NL @ ''---'' @ NL @ ''Query:'' @ NL @ query else query)
      else modifier @ NL @ ''---'' @ NL @ ''Previous Conversation Context:'' @ NL
           @ py_join NL (map (\<lambda>p. ''User: '' @ fmt rt (fst p) @ NL @ ''Model: '' @ fmt rt (snd p)) ps)
           @ NL @ ''---'' @ NL @ ''Current Query:'' @ NL @ query)"

section \<open>A concrete runtime\<close>

text \<open>
  A runtime for closed instances: every connection fails, nothing decodes, and every
  rendering is a fixed text. Instances change the fields they need.
\<close>

definition sample_runtime :: runtime where
  "sample_runtime =
     \<lparr>str_of = (\<lambda>v. ''<value>''), exn_str = (\<lambda>e. ''failure''),
      json_dumps = (\<lambda>i v. ''<json>''), json_loads = (\<lambda>s. None),
      getenv = (\<lambda>k. Some ''key''), post = (\<lambda>r. Inl ConnectionError)\<rparr>"




definition text_feedback_body :: pyval where
  "text_feedback_body = PDict [(''candidates'', PList []), (''promptFeedback'', PStr ''blocked'')]"

definition empty_reason_body :: pyval where
  "empty_reason_body =
     PDict [(''candidates'', PList []), (''promptFeedback'', PDict [(''blockReason'', PStr [])])]"


definition no_candidates_body :: "string \<Rightarrow> pyval" where
  "no_candidates_body reason =
     PDict [(''candidates'', PList []), (''promptFeedback'', PDict [(''blockReason'', PStr reason)])]"

definition stop_body :: "string \<Rightarrow> pyval" where
  "stop_body t =
     PDict [(''candidates'',
        PList [PDict [(''content'', PDict [(''parts'', PList [PDict [(''text'', PStr t)]])]),
                      (''finishReason'', PStr ''STOP'')]])]"

definition ok_response :: response where
  "ok_response = \<lparr>status_code = 200, body_text = ''{}''\<rparr>"

section \<open>Properties of the payload builder\<close>

lemma unpack2_pair: "unpack2 (pair_entry p) = Inr p"
  by (simp add: unpack2_def pair_entry_def)

lemma history_loop_pairs:
  "history_loop (map pair_entry ps) (out, conv) =
     Inr (out @ map (\<lambda>p. skip_warning (fst p) (snd p)) (filter (\<lambda>p. \<not> well_typed p) ps),
          conv @ concat (map turn_entries (filter well_typed ps)))"
proof (induction ps arbitrary: out conv)
  case Nil
  show ?case by simp
next
  case (Cons p ps)
  obtain q a where p: "p = (q, a)" by (cases p)
  have u: "unpack2 (pair_entry (q, a)) = Inr (q, a)" by (rule unpack2_pair)
  show ?case
  proof (cases "well_typed p")
    case True
    then have wt: "well_typed (q, a)" and s: "is_str q \<and> is_str a"
      by (simp_all add: p well_typed_def)
    show ?thesis
      using Cons.IH [of out "conv @ [user_entry q, model_entry a]"]
      by (simp add: p u wt s turn_entries_def)
  next
    case False
    then have wt: "\<not> well_typed (q, a)" and s: "\<not> (is_str q \<and> is_str a)"
      by (simp_all add: p well_typed_def)
    show ?thesis
      using Cons.IH [of "out @ [skip_warning q a]" conv]
      by (simp add: p u wt s)
  qed
qed

lemma context_lines_pairs:
  "context_lines rt lq la (map pair_entry ps) =
     Inr (map (\<lambda>p. lq @ fmt rt (fst p) @ NL @ la @ fmt rt (snd p)) ps)"
proof (induction ps)
  case Nil
  show ?case by simp
next
  case (Cons p ps)
  obtain q a where p: "p = (q, a)" by (cases p)
  have u: "unpack2 (pair_entry (q, a)) = Inr (q, a)" by (rule unpack2_pair)
  show ?case using Cons.IH by (simp add: p u)
qed

lemma format_pairs_eq:
  "format_gemini_payload rt query (PList (map pair_entry ps)) modifier =
     Inr (map (\<lambda>p. skip_warning (fst p) (snd p)) (filter (\<lambda>p. \<not> well_typed p) ps),
          PDict [(''contents'', PList (concat (map turn_entries (filter well_typed ps))
                    @ [user_entry (PStr (final_text rt query ps modifier))]))])"
proof (cases "ps = []")
  case True
  then show ?thesis
    by (simp add: format_gemini_payload_def final_text_def)
next
  case False
  then show ?thesis
    by (simp add: format_gemini_payload_def final_text_def history_loop_pairs context_lines_pairs)
qed

lemma final_text_query: "sublist query (final_text rt query ps modifier)"
proof -
  have "suffix query (final_text rt query ps modifier)"
    by (simp add: final_text_def suffix_def)
  then show ?thesis by (rule suffix_imp_sublist)
qed

lemma final_text_modifier: "sublist modifier (final_text rt query ps modifier)"
proof (cases "modifier = []")
  case True
  then show ?thesis by simp
next
  case False
  then have "prefix modifier (final_text rt query ps modifier)"
    by (simp add: final_text_def)
  then show ?thesis by (rule prefix_imp_sublist)
qed

lemma turns_well_typed:
  "filter well_typed (map (\<lambda>t. (PStr (fst t), PStr (snd t))) H)
     = map (\<lambda>t. (PStr (fst t), PStr (snd t))) H"
  by (induction H) (simp_all add: well_typed_def)

lemma turns_none_skipped:
  "filter (\<lambda>p. \<not> well_typed p) (map (\<lambda>t. (PStr (fst t), PStr (snd t))) H) = []"
  by (induction H) (simp_all add: well_typed_def)

lemma format_old_pairs_eq:
  "format_gemini_payload_old rt query (PList (map pair_entry ps)) modifier =
     Inr (map (\<lambda>p. skip_warning (fst p) (snd p)) (filter (\<lambda>p. \<not> well_typed p) ps),
          PDict [(''contents'', PList (concat (map turn_entries (filter well_typed ps))
                    @ [user_entry (PStr (final_text_old rt query ps modifier))]))])"
proof (cases "ps = []")
  case True
  then show ?thesis
    by (simp add: format_gemini_payload_old_def final_text_old_def)
next
  case False
  then show ?thesis
    by (simp add: format_gemini_payload_old_def final_text_old_def history_loop_pairs
        context_lines_pairs)
qed

lemma final_text_old_query: "sublist query (final_text_old rt query ps modifier)"
proof -
  have "suffix query (final_text_old rt query ps modifier)"
    by (simp add: final_text_old_def suffix_def)
  then show ?thesis by (rule suffix_imp_sublist)
qed

lemma final_text_old_modifier: "sublist modifier (final_text_old rt query ps modifier)"
proof (cases "modifier = []")
  case True
  then show ?thesis by simp
next
  case False
  then have "prefix modifier (final_text_old rt query ps modifier)"
    by (simp add: final_text_old_def)
  then show ?thesis by (rule prefix_imp_sublist)
qed

lemma turn_literals_as_pairs:
  "map (\<lambda>t. PList [PStr (fst t), PStr (snd t)]) H
     = map pair_entry (map (\<lambda>t. (PStr (fst t), PStr (snd t))) H)"
  by (simp add: pair_entry_def)

lemma turns_entry_literals:
  "concat (map turn_entries (map (\<lambda>t. (PStr (fst t), PStr (snd t))) H))
     = concat (map (\<lambda>t.
          [PDict [(''role'', PStr ''user''), (''parts'', PList [PDict [(''text'', PStr (fst t))]])],
           PDict [(''role'', PStr ''model''), (''parts'', PList [PDict [(''text'', PStr (snd t))]])]]) H)"
  by (induction H) (simp_all add: turn_entries_def user_entry_def model_entry_def)

lemma length_turn_literals:
  "length (concat (map (\<lambda>t.
          [PDict [(''role'', PStr ''user''), (''parts'', PList [PDict [(''text'', PStr (fst t))]])],
           PDict [(''role'', PStr ''model''), (''parts'', PList [PDict [(''text'', PStr (snd t))]])]]) H))
     = 2 * length H"
  by (induction H) simp_all

text \<open>
  C1. For every history \<open>H\<close> of pairs of text, every query \<open>q\<close> and every modifier \<open>m\<close>,
  both payload builders (gemini.espeak\_and\_piper.py and
  .old/gemini.espeak\_and\_piper1.py) return, with no warning, the dictionary whose
  \<^verbatim>\<open>contents\<close> list has \<open>2 * |H| + 1\<close> entries: for each turn in order an entry with
  role \<^verbatim>\<open>user\<close> whose one part holds the turn's query and an entry with role
  \<^verbatim>\<open>model\<close> whose one part holds its response, then one entry with role \<^verbatim>\<open>user\<close>
  whose text contains \<open>q\<close> and \<open>m\<close>. No bound on the length of \<open>H\<close> is needed.
\<close>

theorem payload_contents_shape:
  "\<exists>final final_old.
     format_gemini_payload rt q (PList (map (\<lambda>t. PList [PStr (fst t), PStr (snd t)]) H)) m
       = Inr ([], PDict [(''contents'',
           PList (concat (map (\<lambda>t.
              [PDict [(''role'', PStr ''user''), (''parts'', PList [PDict [(''text'', PStr (fst t))]])],
               PDict [(''role'', PStr ''model''), (''parts'', PList [PDict [(''text'', PStr (snd t))]])]]) H)
            @ [PDict [(''role'', PStr ''user''), (''parts'', PList [PDict [(''text'', PStr final)]])]]))])
     \<and> format_gemini_payload_old rt q (PList (map (\<lambda>t. PList [PStr (fst t), PStr (snd t)]) H)) m
       = Inr ([], PDict [(''contents'',
           PList (concat (map (\<lambda>t.
              [PDict [(''role'', PStr ''user''), (''parts'', PList [PDict [(''text'', PStr (fst t))]])],
               PDict [(''role'', PStr ''model''), (''parts'', PList [PDict [(''text'', PStr (snd t))]])]]) H)
            @ [PDict [(''role'', PStr ''user''), (''parts'', PList [PDict [(''text'', PStr final_old)]])]]))])
     \<and> length (concat (map (\<lambda>t.
              [PDict [(''role'', PStr ''user''), (''parts'', PList [PDict [(''text'', PStr (fst t))]])],
               PDict [(''role'', PStr ''model''), (''parts'', PList [PDict [(''text'', PStr (snd t))]])]]) H)
            @ [PDict [(''role'', PStr ''user''), (''parts'', PList [PDict [(''text'', PStr final)]])]])
         = 2 * length H + 1
     \<and> sublist q final \<and> sublist m final \<and> sublist q final_old \<and> sublist m final_old"
proof -
  let ?ps = "map (\<lambda>t. (PStr (fst t), PStr (snd t))) H"
  let ?turns = "concat (map (\<lambda>t.
              [PDict [(''role'', PStr ''user''), (''parts'', PList [PDict [(''text'', PStr (fst t))]])],
               PDict [(''role'', PStr ''model''), (''parts'', PList [PDict [(''text'', PStr (snd t))]])]]) H)"
  let ?last = "\<lambda>f. PDict [(''role'', PStr ''user''), (''parts'', PList [PDict [(''text'', PStr f)]])]"
  have u: "user_entry (PStr f) = ?last f" for f
    by (simp add: user_entry_def)
  have 1: "format_gemini_payload rt q (PList (map (\<lambda>t. PList [PStr (fst t), PStr (snd t)]) H)) m
          = Inr ([], PDict [(''contents'', PList (?turns @ [?last (final_text rt q ?ps m)]))])"
    using format_pairs_eq [of rt q ?ps m]
    by (simp only: turn_literals_as_pairs turns_well_typed turns_none_skipped turns_entry_literals
        list.map u)
  have 2: "format_gemini_payload_old rt q (PList (map (\<lambda>t. PList [PStr (fst t), PStr (snd t)]) H)) m
          = Inr ([], PDict [(''contents'', PList (?turns @ [?last (final_text_old rt q ?ps m)]))])"
    using format_old_pairs_eq [of rt q ?ps m]
    by (simp only: turn_literals_as_pairs turns_well_typed turns_none_skipped turns_entry_literals
        list.map u)
  have 3: "length (?turns @ [?last (final_text rt q ?ps m)]) = 2 * length H + 1"
    by (simp add: length_turn_literals)
  from 1 2 3 show ?thesis
    using final_text_query [of q rt ?ps m] final_text_modifier [of m rt q ?ps]
      final_text_old_query [of q rt ?ps m] final_text_old_modifier [of m rt q ?ps]
    by blast
qed

lemma history_loop_aborts:
  assumes "unpack2 e = Inl x"
  shows "history_loop (map pair_entry ps @ e # rest) st = Inl x"
proof (induction ps arbitrary: st)
  case Nil
  obtain out conv where st: "st = (out, conv)" by (cases st)
  show ?case using assms by (simp add: st)
next
  case (Cons p ps)
  obtain out conv where st: "st = (out, conv)" by (cases st)
  obtain q a where p: "p = (q, a)" by (cases p)
  have u: "unpack2 (pair_entry (q, a)) = Inr (q, a)" by (rule unpack2_pair)
  show ?case
    using Cons.IH by (simp add: st p u)
qed

text \<open>
  An entry that does not unpack into two items ends the build with the exception of the
  unpacking, wherever it stands after entries of two items.
\<close>

lemma unpacking_failure_aborts_build:
  assumes "unpack2 e = Inl x"
  shows "format_gemini_payload rt query (PList (map pair_entry ps @ e # rest)) modifier = Inl x"
  using history_loop_aborts [OF assms, of ps rest "([], [])"]
  by (simp add: format_gemini_payload_def)


text \<open>
  An entry of two items of the wrong type is left out of the role entries with a warning,
  but the recap inside the final entry (line 30) still renders it.
\<close>

lemma skipped_entry_still_in_recap:
  "format_gemini_payload sample_runtime ''hello'' (PList [PList [PInt 5, PStr ''a'']]) []
     = Inr ([''Warning: Skipping invalid history entry: (<class '' @ SQ @ ''int'' @ SQ @ ''>, <class ''
              @ SQ @ ''str'' @ SQ @ ''>)''],
            PDict [(''contents'',
              PList [PDict [(''role'', PStr ''user''),
                            (''parts'', PList [PDict [(''text'',
                               PStr (NL @ ''---'' @ NL @ ''Previous Context:'' @ NL
                                     @ ''User: <value>'' @ NL @ ''Model: a'' @ NL @ ''---'' @ NL
                                     @ ''Current Query:'' @ NL @ ''hello''))]])]])])"
  by (simp add: format_gemini_payload_def unpack2_def skip_warning_def type_repr_def user_entry_def
      sample_runtime_def)

section \<open>Properties of the history update\<close>

lemma py_slice_from_last10: "py_slice_from (- 10) xs = drop (length xs - 10) xs"
proof -
  have "nat (max (int (length xs) + - 10) 0) = length xs - 10" by simp
  then show ?thesis by (simp add: py_slice_from_def Let_def)
qed

lemma append_and_trim_length: "length (append_and_trim history e) \<le> 10"
  by (simp add: append_and_trim_def py_slice_from_last10)

lemma foldl_append_and_trim_length:
  "length history \<le> 10 \<Longrightarrow> length (foldl append_and_trim history es) \<le> 10"
proof (induction es arbitrary: history)
  case Nil
  then show ?case by simp
next
  case (Cons e es)
  have "length (append_and_trim history e) \<le> 10" by (rule append_and_trim_length)
  then show ?case using Cons.IH by simp
qed

lemma append_and_trim_at_cap:
  assumes "length history = 10"
  shows "append_and_trim history e = tl history @ [e]"
proof -
  from assms obtain x xs where h: "history = x # xs" by (cases history) auto
  with assms show ?thesis
    by (simp add: append_and_trim_def py_slice_from_last10)
qed

text \<open>
  C6. The cap of gemini.espeak\_and\_piper.py is 10. Appending to a history of 10 entries
  drops exactly the oldest entry and keeps the others in order, with the new entry
  last; and from a history of at most 10 entries, any sequence of appends leaves at
  most 10 entries.
\<close>

theorem history_cap:
  "(length history = 10 \<longrightarrow> append_and_trim history e = tl history @ [e])
   \<and> (length history \<le> 10 \<longrightarrow> length (foldl append_and_trim history es) \<le> 10)"
  using append_and_trim_at_cap foldl_append_and_trim_length by blast

theorem history_cap_witness:
  "length (replicate 10 (turn_entry (''q'', ''a''))) = 10
   \<and> append_and_trim (replicate 10 (turn_entry (''q'', ''a''))) (turn_entry (''x'', ''y''))
       = tl (replicate 10 (turn_entry (''q'', ''a''))) @ [turn_entry (''x'', ''y'')]
   \<and> length (foldl append_and_trim (replicate 10 (turn_entry (''q'', ''a'')))
                [turn_entry (''x'', ''y''), turn_entry (''z'', ''w'')]) \<le> 10"
proof -
  have l: "length (replicate 10 (turn_entry (''q'', ''a''))) = 10" by simp
  have l2: "length (replicate 10 (turn_entry (''q'', ''a''))) \<le> 10" by simp
  from l l2
    history_cap [of "replicate 10 (turn_entry (''q'', ''a''))" "turn_entry (''x'', ''y'')"
                    "[turn_entry (''x'', ''y''), turn_entry (''z'', ''w'')]"]
  show ?thesis by blast
qed

section \<open>Properties of the transport\<close>

lemma call_request_failure:
  assumes "post rt (gemini_request url k h d) = Inl e" and "is_RequestException e"
  shows "\<exists>s. call_gemini_api rt url k h d = Inr (ErrorText s)"
  using assms by (cases e) (simp_all add: call_gemini_api_def)

lemma call_http_error:
  assumes "post rt (gemini_request url k h d) = Inr r"
    and "400 \<le> status_code r" and "status_code r < 600"
  shows "\<exists>s. call_gemini_api rt url k h d = Inr (ErrorText s)"
  using assms by (simp add: call_gemini_api_def raise_for_status_def)

lemma call_unexpected:
  assumes "post rt (gemini_request url k h d) = Inl e" and "\<not> is_RequestException e"
  shows "call_gemini_api rt url k h d = Inl e"
  using assms by (cases e) (simp_all add: call_gemini_api_def)

lemma espeak_propagates:
  assumes "getenv rt ''GEMINI_API_KEY'' = Some key" and "key \<noteq> []"
    and "\<And>r. req_timeout r = None \<Longrightarrow> post rt r = Inl e"
  shows "espeak_get_gemini_response rt q (map pair_entry ps) m = Inl e"
  using assms
  by (simp add: espeak_get_gemini_response_def context_lines_pairs bnd_def Let_def)

text \<open>
  C2, as stated, fails. In \<^verbatim>\<open>_call_gemini_api\<close> of gemini.espeak\_and\_piper.py an
  exception that is not a \<^verbatim>\<open>RequestException\<close> leaves the function; and
  \<^verbatim>\<open>get_gemini_response\<close> of gemini.espeak.py issues its request with no timeout and
  lets a timeout of the connection propagate.
\<close>

theorem exception_escapes_transport:
  "call_gemini_api (sample_runtime\<lparr>post := (\<lambda>r. Inl OtherException)\<rparr>) ''u'' ''k'' [] PNone
     = Inl OtherException
   \<and> espeak_get_gemini_response
       (sample_runtime\<lparr>post := (\<lambda>r. if req_timeout r = None then Inl Timeout else Inl OtherException)\<rparr>)
       ''hello'' [] [] = Inl Timeout"
  by (simp add: call_gemini_api_def espeak_get_gemini_response_def sample_runtime_def bnd_def)

text \<open>
  C2, amended. \<^verbatim>\<open>_call_gemini_api\<close> of gemini.espeak\_and\_piper.py issues its request
  with a timeout of 60 seconds; a failure of the call that is a \<^verbatim>\<open>RequestException\<close>
  (timeout, connection failure) and a response with an HTTP error status resolve to a
  returned error text; any other exception propagates to the caller.
  \<^verbatim>\<open>get_gemini_response\<close> of gemini.espeak.py issues its request with no timeout, and
  whatever the call raises propagates.
\<close>

theorem transport_failures:
  "req_timeout (gemini_request url k h d) = Some 60
   \<and> (\<forall>e. post rt (gemini_request url k h d) = Inl e \<and> is_RequestException e
          \<longrightarrow> (\<exists>s. call_gemini_api rt url k h d = Inr (ErrorText s)))
   \<and> (\<forall>r. post rt (gemini_request url k h d) = Inr r \<and> 400 \<le> status_code r \<and> status_code r < 600
          \<longrightarrow> (\<exists>s. call_gemini_api rt url k h d = Inr (ErrorText s)))
   \<and> (\<forall>e. post rt (gemini_request url k h d) = Inl e \<and> \<not> is_RequestException e
          \<longrightarrow> call_gemini_api rt url k h d = Inl e)
   \<and> (\<forall>key e. getenv rt ''GEMINI_API_KEY'' = Some key \<and> key \<noteq> []
          \<and> (\<forall>r. req_timeout r = None \<longrightarrow> post rt r = Inl e)
          \<longrightarrow> espeak_get_gemini_response rt q (map pair_entry ps) m = Inl e)"
proof -
  have "req_timeout (gemini_request url k h d) = Some 60"
    by (simp add: gemini_request_def)
  then show ?thesis
    using call_request_failure [of rt url k h d] call_http_error [of rt url k h d]
      call_unexpected [of rt url k h d] espeak_propagates [of rt _ _ q ps m]
    by blast
qed

theorem transport_failures_witness:
  "(\<exists>s. call_gemini_api sample_runtime ''u'' ''k'' [] PNone = Inr (ErrorText s))
   \<and> (\<exists>s. call_gemini_api (sample_runtime\<lparr>post := (\<lambda>r. Inr \<lparr>status_code = 503, body_text = ''busy''\<rparr>)\<rparr>)
            ''u'' ''k'' [] PNone = Inr (ErrorText s))
   \<and> call_gemini_api (sample_runtime\<lparr>post := (\<lambda>r. Inl TypeError)\<rparr>) ''u'' ''k'' [] PNone = Inl TypeError
   \<and> espeak_get_gemini_response sample_runtime ''hello'' (map pair_entry []) [] = Inl ConnectionError"
proof -
  have a: "post sample_runtime (gemini_request ''u'' ''k'' [] PNone) = Inl ConnectionError
           \<and> is_RequestException ConnectionError"
    by (simp add: sample_runtime_def)
  have b: "post (sample_runtime\<lparr>post := (\<lambda>r. Inr \<lparr>status_code = 503, body_text = ''busy''\<rparr>)\<rparr>)
             (gemini_request ''u'' ''k'' [] PNone) = Inr \<lparr>status_code = 503, body_text = ''busy''\<rparr>
           \<and> 400 \<le> status_code \<lparr>status_code = 503, body_text = ''busy''\<rparr>
           \<and> status_code \<lparr>status_code = 503, body_text = ''busy''\<rparr> < 600"
    by simp
  have c: "post (sample_runtime\<lparr>post := (\<lambda>r. Inl TypeError)\<rparr>) (gemini_request ''u'' ''k'' [] PNone)
             = Inl TypeError
           \<and> \<not> is_RequestException TypeError"
    by simp
  have d: "getenv sample_runtime ''GEMINI_API_KEY'' = Some ''key'' \<and> ''key'' \<noteq> []
           \<and> (\<forall>r. req_timeout r = None \<longrightarrow> post sample_runtime r = Inl ConnectionError)"
    by (simp add: sample_runtime_def)
  from a b c d
    transport_failures [of "''u''" "''k''" "[]" PNone sample_runtime "''hello''" "[]" "[]"]
    transport_failures [of "''u''" "''k''" "[]" PNone
       "sample_runtime\<lparr>post := (\<lambda>r. Inr \<lparr>status_code = 503, body_text = ''busy''\<rparr>)\<rparr>"]
    transport_failures [of "''u''" "''k''" "[]" PNone "sample_runtime\<lparr>post := (\<lambda>r. Inl TypeError)\<rparr>"]
  show ?thesis by blast
qed

section \<open>Failed exchanges and the history\<close>

text \<open>
  C7. In gemini.espeak\_and\_piper.py a failed exchange is appended to the history. The
  request fails with a connection error; \<^verbatim>\<open>_call_gemini_api\<close> returns the text
  \<^verbatim>\<open>Error communicating with API: ...\<close>, the parser passes it through, and the guard of
  the main loop, which tests for the prefix \<^verbatim>\<open>Error:\<close>, lets it into the history.
\<close>

theorem failed_exchange_stored:
  "main_exchange sample_runtime [] ''hello'' ''be terse''
     = Inr [PList [PStr ''hello'', PStr ''Error communicating with API: failure'']]"
  by (simp add: main_exchange_def get_gemini_response_def format_gemini_payload_def
      call_gemini_api_def parse_gemini_response_main_def store_interaction_def
      append_and_trim_def py_slice_from_def sample_runtime_def bnd_def Let_def)

text \<open>
  What the guard does keep out: a response whose text begins with \<^verbatim>\<open>Error:\<close>. A
  response whose text begins with \<^verbatim>\<open>Warning:\<close> is stored.
\<close>

lemma store_interaction_guard:
  "(prefix ''Error:'' response \<longrightarrow> store_interaction history query response = history)
   \<and> (prefix ''Warning:'' response \<longrightarrow>
        store_interaction history query response
          = append_and_trim history (PList [PStr query, PStr response]))"
proof -
  have "prefix ''Warning:'' response \<Longrightarrow> \<not> prefix ''Error:'' response"
    by (auto simp add: prefix_def)
  then show ?thesis
    by (auto simp add: store_interaction_def)
qed

text \<open>
  In gemini.espeak.py every response that \<^verbatim>\<open>get_gemini_response\<close> returns is appended
  with its query, the error text for a status other than 200 included.
\<close>

lemma espeak_appends_every_response:
  "espeak_get_gemini_response rt query history modifier = Inr r \<Longrightarrow>
     espeak_main_turn rt query history modifier = Inr (history @ [PList [PStr query, r]])"
  by (simp add: espeak_main_turn_def bnd_def)

lemma espeak_failed_exchange_appended:
  "espeak_main_turn (sample_runtime\<lparr>post := (\<lambda>r. Inr \<lparr>status_code = 500, body_text = ''oops''\<rparr>)\<rparr>)
      ''hello'' [] [] = Inr [PList [PStr ''hello'', PStr ''Error: <value> - oops'']]"
  by (simp add: espeak_main_turn_def espeak_get_gemini_response_def sample_runtime_def bnd_def)

section \<open>Properties of the response parser\<close>



lemma py_get_Inl: "py_get v k d = Inl e \<Longrightarrow> e = AttributeError"
  by (cases v) auto



lemma no_top_level_error:
  assumes "py_get data ''error'' PNone = Inr err" and "\<not> truthy err"
  shows "top_level_error rt data = Inr None"
  using assms by (simp add: top_level_error_def bnd_def)


lemma prompt_not_blocking:
  assumes "py_get data ''promptFeedback'' PNone = Inr pf"
    and "\<not> truthy pf \<or> (py_get pf ''blockReason'' PNone = Inr br
           \<and> (\<not> truthy br \<or> br = PStr ''BLOCK_REASON_UNSPECIFIED''))"
  shows "prompt_blocked rt data = Inr None"
  using assms by (auto simp add: prompt_blocked_def bnd_def)

lemma prompt_blocking_reported:
  assumes "py_get data ''error'' PNone = Inr err" and "\<not> truthy err"
    and "py_get data ''promptFeedback'' PNone = Inr pf" and "truthy pf"
    and "py_get pf ''blockReason'' PNone = Inr br" and "truthy br"
    and "br \<noteq> PStr ''BLOCK_REASON_UNSPECIFIED''"
  shows "parse_response_data rt data
           = Inr (''Error: Response blocked due to content policy (default). Reason: ''
                  @ fmt rt br @ ''.'')"
proof -
  obtain kvs where pf: "pf = PDict kvs" using assms(5) by (cases pf) auto
  have "prompt_blocked rt data
          = Inr (Some (''Error: Response blocked due to content policy (default). Reason: ''
                       @ fmt rt br @ ''.''))"
    using assms(3-7) by (simp add: prompt_blocked_def bnd_def pf)
  then show ?thesis
    using no_top_level_error [OF assms(1,2), of rt]
    by (simp add: parse_response_data_def bnd_def)
qed

lemma prompt_feedback_not_object:
  assumes "py_get data ''error'' PNone = Inr err" and "\<not> truthy err"
    and "py_get data ''promptFeedback'' PNone = Inr pf" and "truthy pf"
    and "py_get pf ''blockReason'' PNone = Inl e"
  shows "parse_response_data rt data = Inl AttributeError"
proof -
  have e: "e = AttributeError" using assms(5) by (rule py_get_Inl)
  have "prompt_blocked rt data = Inl AttributeError"
    using assms(3-5) e by (simp add: prompt_blocked_def bnd_def)
  then show ?thesis
    using no_top_level_error [OF assms(1,2), of rt]
    by (simp add: parse_response_data_def bnd_def)
qed






lemma parse_of_data:
  assumes "json_loads rt (body_text r) = Some data" and "parse_response_data rt data = Inr s"
  shows "parse_gemini_response rt (Response r) = s"
  using assms by (simp add: parse_gemini_response_def)








lemma no_candidates_plain:
  assumes "top_level_error rt data = Inr None"
    and "py_get data ''candidates'' PNone = Inr cands" and "\<not> truthy cands"
    and "prompt_blocked rt data = Inr None"
  shows "parse_response_data rt data =
     Inr (''Error: No candidates found in response and no blocking reason identified. Response JSON: ''
          @ json_dumps rt None data)"
  using assms by (simp add: parse_response_data_def bnd_def)

lemma parse_no_candidates_blocked:
  "json_loads rt (body_text r) = Some data
   \<and> py_get data ''error'' PNone = Inr err \<and> \<not> truthy err
   \<and> py_get data ''candidates'' PNone = Inr cands \<and> \<not> truthy cands
   \<and> py_get data ''promptFeedback'' PNone = Inr pf \<and> truthy pf
   \<and> py_get pf ''blockReason'' PNone = Inr br \<and> truthy br
   \<and> br \<noteq> PStr ''BLOCK_REASON_UNSPECIFIED''
   \<longrightarrow> parse_gemini_response rt (Response r)
        = ''Error: Response blocked due to content policy (default). Reason: '' @ fmt rt br @ ''.''"
proof (intro impI, elim conjE)
  assume j: "json_loads rt (body_text r) = Some data"
    and e: "py_get data ''error'' PNone = Inr err" "\<not> truthy err"
      "py_get data ''promptFeedback'' PNone = Inr pf" "truthy pf"
      "py_get pf ''blockReason'' PNone = Inr br" "truthy br"
      "br \<noteq> PStr ''BLOCK_REASON_UNSPECIFIED''"
  show "parse_gemini_response rt (Response r)
        = ''Error: Response blocked due to content policy (default). Reason: '' @ fmt rt br @ ''.''"
    by (rule parse_of_data [OF j prompt_blocking_reported [OF e]])
qed

lemma parse_no_candidates_plain:
  "json_loads rt (body_text r) = Some data
   \<and> py_get data ''error'' PNone = Inr err \<and> \<not> truthy err
   \<and> py_get data ''candidates'' PNone = Inr cands \<and> \<not> truthy cands
   \<and> py_get data ''promptFeedback'' PNone = Inr pf
   \<and> (\<not> truthy pf \<or> (py_get pf ''blockReason'' PNone = Inr br
         \<and> (\<not> truthy br \<or> br = PStr ''BLOCK_REASON_UNSPECIFIED'')))
   \<longrightarrow> parse_gemini_response rt (Response r)
        = ''Error: No candidates found in response and no blocking reason identified. Response JSON: ''
          @ json_dumps rt None data"
proof (intro impI, elim conjE)
  assume j: "json_loads rt (body_text r) = Some data"
    and e: "py_get data ''error'' PNone = Inr err" "\<not> truthy err"
    and c: "py_get data ''candidates'' PNone = Inr cands" "\<not> truthy cands"
    and f: "py_get data ''promptFeedback'' PNone = Inr pf"
      "\<not> truthy pf \<or> (py_get pf ''blockReason'' PNone = Inr br
         \<and> (\<not> truthy br \<or> br = PStr ''BLOCK_REASON_UNSPECIFIED''))"
  show "parse_gemini_response rt (Response r)
        = ''Error: No candidates found in response and no blocking reason identified. Response JSON: ''
          @ json_dumps rt None data"
    by (rule parse_of_data [OF j no_candidates_plain [OF no_top_level_error [OF e] c
          prompt_not_blocking [OF f]]])
qed

lemma parse_no_candidates_structure:
  "json_loads rt (body_text r) = Some data
   \<and> py_get data ''error'' PNone = Inr err \<and> \<not> truthy err
   \<and> py_get data ''candidates'' PNone = Inr cands \<and> \<not> truthy cands
   \<and> py_get data ''promptFeedback'' PNone = Inr pf \<and> truthy pf
   \<and> py_get pf ''blockReason'' PNone = Inl e
   \<longrightarrow> parse_gemini_response rt (Response r)
        = ''Error processing API response structure: '' @ exn_str rt AttributeError
          @ ''. Response JSON slice: '' @ take 500 (fmt rt data)"
proof (intro impI, elim conjE)
  assume j: "json_loads rt (body_text r) = Some data"
    and e: "py_get data ''error'' PNone = Inr err" "\<not> truthy err"
      "py_get data ''promptFeedback'' PNone = Inr pf" "truthy pf"
      "py_get pf ''blockReason'' PNone = Inl e"
  have "parse_response_data rt data = Inl AttributeError"
    by (rule prompt_feedback_not_object [OF e])
  with j show "parse_gemini_response rt (Response r)
        = ''Error processing API response structure: '' @ exn_str rt AttributeError
          @ ''. Response JSON slice: '' @ take 500 (fmt rt data)"
    by (simp add: parse_gemini_response_def)
qed

lemma generate_text_no_candidates:
  assumes "\<forall>req. post rt req = Inr r"
    and "\<not> (400 \<le> status_code r \<and> status_code r < 600)"
    and "json_loads rt (body_text r) = Some data"
    and "py_get data ''candidates'' PNone = Inr cands" and "\<not> truthy cands"
  shows "generate_text rt api_key model_name prompt history =
     (case no_candidate_text rt data of
        Inr s \<Rightarrow> Inr s
      | Inl e \<Rightarrow>
          (case e of
             HTTPError r \<Rightarrow>
               Inr (''Error: API request failed (Status '' @ fmt rt (PInt (int (status_code r))) @ '').'')
           | _ \<Rightarrow>
               (if is_RequestException e
                then Inr (''Error: Could not connect to the API. ('' @ exn_str rt e @ '')'')
                else Inr (''Error: An unexpected error occurred. ('' @ exn_str rt e @ '')''))))"
proof -
  have ok: "raise_for_status r = Inr r"
    using assms(2) by (auto simp add: raise_for_status_def)
  have p: "post rt req = Inr r" for req
    using assms(1) by simp
  have h: "candidate_has_parts cands = Inr False"
    using assms(5) by (simp add: candidate_has_parts_def)
  have "generate_text_try rt url headers d = no_candidate_text rt data" for url headers d
    using assms(3,4) by (simp add: generate_text_try_def bnd_def p ok h response_json_def)
  then show ?thesis
    by (simp add: generate_text_def Let_def)
qed

lemma generate_no_candidates_blocked:
  "(\<forall>req. post rt req = Inr r) \<and> \<not> (400 \<le> status_code r \<and> status_code r < 600)
   \<and> json_loads rt (body_text r) = Some data
   \<and> py_get data ''candidates'' PNone = Inr cands \<and> \<not> truthy cands
   \<and> py_get data ''promptFeedback'' PNone = Inr pf \<and> truthy pf
   \<and> py_get pf ''blockReason'' PNone = Inr br \<and> truthy br
   \<longrightarrow> generate_text rt api_key model_name prompt history
        = Inr (''Error: Your request was blocked by the API. Reason: '' @ fmt rt br)"
proof (intro impI, elim conjE)
  assume g: "\<forall>req. post rt req = Inr r" "\<not> (400 \<le> status_code r \<and> status_code r < 600)"
      "json_loads rt (body_text r) = Some data"
      "py_get data ''candidates'' PNone = Inr cands" "\<not> truthy cands"
    and f: "py_get data ''promptFeedback'' PNone = Inr pf" "truthy pf"
      "py_get pf ''blockReason'' PNone = Inr br" "truthy br"
  obtain kvs where pf: "pf = PDict kvs" using f(3) by (cases pf) auto
  have it: "py_item pf ''blockReason'' = Inr br"
    using f(3,4) by (auto simp add: pf split: option.splits)
  have "no_candidate_text rt data
          = Inr (''Error: Your request was blocked by the API. Reason: '' @ fmt rt br)"
    using f it by (simp add: no_candidate_text_def bnd_def)
  then show "generate_text rt api_key model_name prompt history
        = Inr (''Error: Your request was blocked by the API. Reason: '' @ fmt rt br)"
    using generate_text_no_candidates [OF g, of api_key model_name prompt history] by simp
qed

lemma generate_no_candidates_unparsed:
  "(\<forall>req. post rt req = Inr r) \<and> \<not> (400 \<le> status_code r \<and> status_code r < 600)
   \<and> json_loads rt (body_text r) = Some data
   \<and> py_get data ''candidates'' PNone = Inr cands \<and> \<not> truthy cands
   \<and> py_get data ''promptFeedback'' PNone = Inr pf
   \<and> (\<not> truthy pf \<or> (py_get pf ''blockReason'' PNone = Inr br \<and> \<not> truthy br))
   \<longrightarrow> generate_text rt api_key model_name prompt history
        = Inr ''Error: Could not parse the response from the model.''"
proof (intro impI, elim conjE)
  assume g: "\<forall>req. post rt req = Inr r" "\<not> (400 \<le> status_code r \<and> status_code r < 600)"
      "json_loads rt (body_text r) = Some data"
      "py_get data ''candidates'' PNone = Inr cands" "\<not> truthy cands"
    and f: "py_get data ''promptFeedback'' PNone = Inr pf"
      "\<not> truthy pf \<or> (py_get pf ''blockReason'' PNone = Inr br \<and> \<not> truthy br)"
  have "no_candidate_text rt data = Inr ''Error: Could not parse the response from the model.''"
    using f by (auto simp add: no_candidate_text_def bnd_def)
  then show "generate_text rt api_key model_name prompt history
        = Inr ''Error: Could not parse the response from the model.''"
    using generate_text_no_candidates [OF g, of api_key model_name prompt history] by simp
qed

lemma generate_no_candidates_structure:
  "(\<forall>req. post rt req = Inr r) \<and> \<not> (400 \<le> status_code r \<and> status_code r < 600)
   \<and> json_loads rt (body_text r) = Some data
   \<and> py_get data ''candidates'' PNone = Inr cands \<and> \<not> truthy cands
   \<and> py_get data ''promptFeedback'' PNone = Inr pf \<and> truthy pf
   \<and> py_get pf ''blockReason'' PNone = Inl e
   \<longrightarrow> generate_text rt api_key model_name prompt history
        = Inr (''Error: An unexpected error occurred. ('' @ exn_str rt AttributeError @ '')'')"
proof (intro impI, elim conjE)
  assume g: "\<forall>req. post rt req = Inr r" "\<not> (400 \<le> status_code r \<and> status_code r < 600)"
      "json_loads rt (body_text r) = Some data"
      "py_get data ''candidates'' PNone = Inr cands" "\<not> truthy cands"
    and f: "py_get data ''promptFeedback'' PNone = Inr pf" "truthy pf"
      "py_get pf ''blockReason'' PNone = Inl e"
  have e: "e = AttributeError" using f(3) by (rule py_get_Inl)
  have "no_candidate_text rt data = Inl AttributeError"
    using f e by (simp add: no_candidate_text_def bnd_def)
  then show "generate_text rt api_key model_name prompt history
        = Inr (''Error: An unexpected error occurred. ('' @ exn_str rt AttributeError @ '')'')"
    using generate_text_no_candidates [OF g, of api_key model_name prompt history] by simp
qed

text \<open>
  C4, as stated, fails. \<^verbatim>\<open>generate_text\<close> reports every non-empty block reason, the
  unspecified one included: for a body with an empty candidates list and the block
  reason \<^verbatim>\<open>BLOCK_REASON_UNSPECIFIED\<close> the result is the blocked-request error, not the
  no-candidates failure.
\<close>

theorem unspecified_block_reason_reported:
  "generate_text
     (sample_runtime\<lparr>post := (\<lambda>req. Inr ok_response),
                       json_loads := (\<lambda>s. Some (no_candidates_body ''BLOCK_REASON_UNSPECIFIED''))\<rparr>)
     ''key'' ''model'' ''hello'' []
   = Inr ''Error: Your request was blocked by the API. Reason: BLOCK_REASON_UNSPECIFIED''"
  by (simp add: generate_text_def generate_text_try_def bnd_def raise_for_status_def
        response_json_def Let_def no_candidates_body_def candidate_has_parts_def
        no_candidate_text_def sample_runtime_def ok_response_def)

text \<open>
  C4, amended. Let the decoded body be an object whose \<^verbatim>\<open>candidates\<close> are missing, empty
  or null. In \<^verbatim>\<open>_parse_gemini_response\<close>, when the body has no truthy top-level
  \<^verbatim>\<open>error\<close>: a \<^verbatim>\<open>promptFeedback\<close> object whose \<^verbatim>\<open>blockReason\<close> is truthy and not
  \<^verbatim>\<open>BLOCK_REASON_UNSPECIFIED\<close> gives the blocked error with the reason; a
  \<^verbatim>\<open>promptFeedback\<close> that is missing or falsy, or an object whose \<^verbatim>\<open>blockReason\<close> is
  missing, falsy or \<^verbatim>\<open>BLOCK_REASON_UNSPECIFIED\<close>, gives the no-candidates error with
  the whole body as JSON; a truthy \<^verbatim>\<open>promptFeedback\<close> that is not an object gives the
  error of an unexpected structure. In \<^verbatim>\<open>generate_text\<close>, when the request is answered
  with a status outside 400 to 599: a \<^verbatim>\<open>promptFeedback\<close> object with any truthy
  \<^verbatim>\<open>blockReason\<close> gives the blocked error with the reason; a \<^verbatim>\<open>promptFeedback\<close> that is
  missing or falsy, or an object whose \<^verbatim>\<open>blockReason\<close> is missing or falsy, gives the
  fixed text that the response could not be parsed; a truthy \<^verbatim>\<open>promptFeedback\<close> that
  is not an object gives the error of an unexpected exception.
\<close>

theorem no_candidates_outcomes:
  "(json_loads rt (body_text r) = Some data
   \<and> py_get data ''error'' PNone = Inr err \<and> \<not> truthy err
   \<and> py_get data ''candidates'' PNone = Inr cands \<and> \<not> truthy cands
   \<and> py_get data ''promptFeedback'' PNone = Inr pf \<and> truthy pf
   \<and> py_get pf ''blockReason'' PNone = Inr br \<and> truthy br
   \<and> br \<noteq> PStr ''BLOCK_REASON_UNSPECIFIED''
   \<longrightarrow> parse_gemini_response rt (Response r)
        = ''Error: Response blocked due to content policy (default). Reason: '' @ fmt rt br @ ''.'')
   \<and> (json_loads rt (body_text r) = Some data
   \<and> py_get data ''error'' PNone = Inr err \<and> \<not> truthy err
   \<and> py_get data ''candidates'' PNone = Inr cands \<and> \<not> truthy cands
   \<and> py_get data ''promptFeedback'' PNone = Inr pf
   \<and> (\<not> truthy pf \<or> (py_get pf ''blockReason'' PNone = Inr br
         \<and> (\<not> truthy br \<or> br = PStr ''BLOCK_REASON_UNSPECIFIED'')))
   \<longrightarrow> parse_gemini_response rt (Response r)
        = ''Error: No candidates found in response and no blocking reason identified. Response JSON: ''
          @ json_dumps rt None data)
   \<and> (json_loads rt (body_text r) = Some data
   \<and> py_get data ''error'' PNone = Inr err \<and> \<not> truthy err
   \<and> py_get data ''candidates'' PNone = Inr cands \<and> \<not> truthy cands
   \<and> py_get data ''promptFeedback'' PNone = Inr pf \<and> truthy pf
   \<and> py_get pf ''blockReason'' PNone = Inl e
   \<longrightarrow> parse_gemini_response rt (Response r)
        = ''Error processing API response structure: '' @ exn_str rt AttributeError
          @ ''. Response JSON slice: '' @ take 500 (fmt rt data))
   \<and> ((\<forall>req. post rt req = Inr r) \<and> \<not> (400 \<le> status_code r \<and> status_code r < 600)
   \<and> json_loads rt (body_text r) = Some data
   \<and> py_get data ''candidates'' PNone = Inr cands \<and> \<not> truthy cands
   \<and> py_get data ''promptFeedback'' PNone = Inr pf \<and> truthy pf
   \<and> py_get pf ''blockReason'' PNone = Inr br \<and> truthy br
   \<longrightarrow> generate_text rt api_key model_name prompt history
        = Inr (''Error: Your request was blocked by the API. Reason: '' @ fmt rt br))
   \<and> ((\<forall>req. post rt req = Inr r) \<and> \<not> (400 \<le> status_code r \<and> status_code r < 600)
   \<and> json_loads rt (body_text r) = Some data
   \<and> py_get data ''candidates'' PNone = Inr cands \<and> \<not> truthy cands
   \<and> py_get data ''promptFeedback'' PNone = Inr pf
   \<and> (\<not> truthy pf \<or> (py_get pf ''blockReason'' PNone = Inr br \<and> \<not> truthy br))
   \<longrightarrow> generate_text rt api_key model_name prompt history
        = Inr ''Error: Could not parse the response from the model.'')
   \<and> ((\<forall>req. post rt req = Inr r) \<and> \<not> (400 \<le> status_code r \<and> status_code r < 600)
   \<and> json_loads rt (body_text r) = Some data
   \<and> py_get data ''candidates'' PNone = Inr cands \<and> \<not> truthy cands
   \<and> py_get data ''promptFeedback'' PNone = Inr pf \<and> truthy pf
   \<and> py_get pf ''blockReason'' PNone = Inl e
   \<longrightarrow> generate_text rt api_key model_name prompt history
        = Inr (''Error: An unexpected error occurred. ('' @ exn_str rt AttributeError @ '')''))"
  by (intro conjI parse_no_candidates_blocked parse_no_candidates_plain
      parse_no_candidates_structure generate_no_candidates_blocked
      generate_no_candidates_unparsed generate_no_candidates_structure)

theorem no_candidates_outcomes_witness:
  "parse_gemini_response (sample_runtime\<lparr>json_loads := (\<lambda>s. Some (no_candidates_body ''SAFETY''))\<rparr>)
     (Response ok_response)
   = ''Error: Response blocked due to content policy (default). Reason: SAFETY.''
   \<and> parse_gemini_response
       (sample_runtime\<lparr>json_loads := (\<lambda>s. Some (no_candidates_body ''BLOCK_REASON_UNSPECIFIED''))\<rparr>)
       (Response ok_response)
   = ''Error: No candidates found in response and no blocking reason identified. Response JSON: <json>''
   \<and> parse_gemini_response (sample_runtime\<lparr>json_loads := (\<lambda>s. Some text_feedback_body)\<rparr>)
       (Response ok_response)
   = ''Error processing API response structure: failure. Response JSON slice: <value>''
   \<and> generate_text
       (sample_runtime\<lparr>post := (\<lambda>req. Inr ok_response),
                         json_loads := (\<lambda>s. Some (no_candidates_body ''SAFETY''))\<rparr>)
       ''key'' ''model'' ''hello'' []
   = Inr ''Error: Your request was blocked by the API. Reason: SAFETY''
   \<and> generate_text
       (sample_runtime\<lparr>post := (\<lambda>req. Inr ok_response),
                         json_loads := (\<lambda>s. Some empty_reason_body)\<rparr>)
       ''key'' ''model'' ''hello'' []
   = Inr ''Error: Could not parse the response from the model.''
   \<and> generate_text
       (sample_runtime\<lparr>post := (\<lambda>req. Inr ok_response),
                         json_loads := (\<lambda>s. Some text_feedback_body)\<rparr>)
       ''key'' ''model'' ''hello'' []
   = Inr ''Error: An unexpected error occurred. (failure)''"
proof -
  let ?p = "\<lambda>b. sample_runtime\<lparr>json_loads := (\<lambda>s. Some b)\<rparr>"
  let ?g = "\<lambda>b. sample_runtime\<lparr>post := (\<lambda>req. Inr ok_response), json_loads := (\<lambda>s. Some b)\<rparr>"
  let ?pf = "\<lambda>reason. PDict [(''blockReason'', PStr reason)]"
  have pre: "json_loads (?p b) (body_text ok_response) = Some b" for b
    by simp
  have gpre: "(\<forall>req. post (?g b) req = Inr ok_response)
      \<and> \<not> (400 \<le> status_code ok_response \<and> status_code ok_response < 600)
      \<and> json_loads (?g b) (body_text ok_response) = Some b" for b
    by (simp add: ok_response_def)
  have nc: "py_get (no_candidates_body x) ''error'' PNone = Inr PNone \<and> \<not> truthy PNone
      \<and> py_get (no_candidates_body x) ''candidates'' PNone = Inr (PList []) \<and> \<not> truthy (PList [])" for x
    by (simp add: no_candidates_body_def)
  have nc2: "py_get (no_candidates_body x) ''candidates'' PNone = Inr (PList []) \<and> \<not> truthy (PList [])" for x
    by (simp add: no_candidates_body_def)
  have fb: "py_get (no_candidates_body x) ''promptFeedback'' PNone = Inr (?pf x)
      \<and> py_get (?pf x) ''blockReason'' PNone = Inr (PStr x)" for x
    by (simp add: no_candidates_body_def)
  have a: "(json_loads (?p (no_candidates_body ''SAFETY'')) (body_text ok_response)
        = Some (no_candidates_body ''SAFETY'')
      \<and> py_get (no_candidates_body ''SAFETY'') ''error'' PNone = Inr PNone \<and> \<not> truthy PNone
      \<and> py_get (no_candidates_body ''SAFETY'') ''candidates'' PNone = Inr (PList [])
      \<and> \<not> truthy (PList []))
      \<and> py_get (no_candidates_body ''SAFETY'') ''promptFeedback'' PNone = Inr (?pf ''SAFETY'')
      \<and> truthy (?pf ''SAFETY'')
      \<and> py_get (?pf ''SAFETY'') ''blockReason'' PNone = Inr (PStr ''SAFETY'') \<and> truthy (PStr ''SAFETY'')
      \<and> PStr ''SAFETY'' \<noteq> PStr ''BLOCK_REASON_UNSPECIFIED''"
    using pre [of "no_candidates_body ''SAFETY''"] nc [of "''SAFETY''"] fb [of "''SAFETY''"]
    by simp
  have b: "(json_loads (?p (no_candidates_body ''BLOCK_REASON_UNSPECIFIED'')) (body_text ok_response)
        = Some (no_candidates_body ''BLOCK_REASON_UNSPECIFIED'')
      \<and> py_get (no_candidates_body ''BLOCK_REASON_UNSPECIFIED'') ''error'' PNone = Inr PNone
      \<and> \<not> truthy PNone
      \<and> py_get (no_candidates_body ''BLOCK_REASON_UNSPECIFIED'') ''candidates'' PNone = Inr (PList [])
      \<and> \<not> truthy (PList []))
      \<and> py_get (no_candidates_body ''BLOCK_REASON_UNSPECIFIED'') ''promptFeedback'' PNone
          = Inr (?pf ''BLOCK_REASON_UNSPECIFIED'')
      \<and> (\<not> truthy (?pf ''BLOCK_REASON_UNSPECIFIED'')
          \<or> (py_get (?pf ''BLOCK_REASON_UNSPECIFIED'') ''blockReason'' PNone
                = Inr (PStr ''BLOCK_REASON_UNSPECIFIED'')
              \<and> (\<not> truthy (PStr ''BLOCK_REASON_UNSPECIFIED'')
                  \<or> PStr ''BLOCK_REASON_UNSPECIFIED'' = PStr ''BLOCK_REASON_UNSPECIFIED'')))"
    using pre [of "no_candidates_body ''BLOCK_REASON_UNSPECIFIED''"] nc [of "''BLOCK_REASON_UNSPECIFIED''"]
      fb [of "''BLOCK_REASON_UNSPECIFIED''"]
    by simp
  have c: "(json_loads (?p text_feedback_body) (body_text ok_response) = Some text_feedback_body
      \<and> py_get text_feedback_body ''error'' PNone = Inr PNone \<and> \<not> truthy PNone
      \<and> py_get text_feedback_body ''candidates'' PNone = Inr (PList []) \<and> \<not> truthy (PList []))
      \<and> py_get text_feedback_body ''promptFeedback'' PNone = Inr (PStr ''blocked'')
      \<and> truthy (PStr ''blocked'')
      \<and> py_get (PStr ''blocked'') ''blockReason'' PNone = Inl AttributeError"
    by (simp add: text_feedback_body_def)
  have d: "((\<forall>req. post (?g (no_candidates_body ''SAFETY'')) req = Inr ok_response)
      \<and> \<not> (400 \<le> status_code ok_response \<and> status_code ok_response < 600)
      \<and> json_loads (?g (no_candidates_body ''SAFETY'')) (body_text ok_response)
          = Some (no_candidates_body ''SAFETY'')
      \<and> py_get (no_candidates_body ''SAFETY'') ''candidates'' PNone = Inr (PList [])
      \<and> \<not> truthy (PList []))
      \<and> py_get (no_candidates_body ''SAFETY'') ''promptFeedback'' PNone = Inr (?pf ''SAFETY'')
      \<and> truthy (?pf ''SAFETY'')
      \<and> py_get (?pf ''SAFETY'') ''blockReason'' PNone = Inr (PStr ''SAFETY'') \<and> truthy (PStr ''SAFETY'')"
    using gpre [of "no_candidates_body ''SAFETY''"] nc2 [of "''SAFETY''"] fb [of "''SAFETY''"]
    by simp
  have e: "((\<forall>req. post (?g empty_reason_body) req = Inr ok_response)
      \<and> \<not> (400 \<le> status_code ok_response \<and> status_code ok_response < 600)
      \<and> json_loads (?g empty_reason_body) (body_text ok_response) = Some empty_reason_body
      \<and> py_get empty_reason_body ''candidates'' PNone = Inr (PList []) \<and> \<not> truthy (PList []))
      \<and> py_get empty_reason_body ''promptFeedback'' PNone = Inr (?pf [])
      \<and> (\<not> truthy (?pf [])
          \<or> (py_get (?pf []) ''blockReason'' PNone = Inr (PStr []) \<and> \<not> truthy (PStr [])))"
    using gpre [of empty_reason_body] by (simp add: empty_reason_body_def)
  have f: "((\<forall>req. post (?g text_feedback_body) req = Inr ok_response)
      \<and> \<not> (400 \<le> status_code ok_response \<and> status_code ok_response < 600)
      \<and> json_loads (?g text_feedback_body) (body_text ok_response) = Some text_feedback_body
      \<and> py_get text_feedback_body ''candidates'' PNone = Inr (PList []) \<and> \<not> truthy (PList []))
      \<and> py_get text_feedback_body ''promptFeedback'' PNone = Inr (PStr ''blocked'')
      \<and> truthy (PStr ''blocked'')
      \<and> py_get (PStr ''blocked'') ''blockReason'' PNone = Inl AttributeError"
    using gpre [of text_feedback_body] by (simp add: text_feedback_body_def)
  note t = no_candidates_outcomes
  have 1: "parse_gemini_response (?p (no_candidates_body ''SAFETY'')) (Response ok_response)
     = ''Error: Response blocked due to content policy (default). Reason: ''
       @ fmt (?p (no_candidates_body ''SAFETY'')) (PStr ''SAFETY'') @ ''.''"
    by (rule mp [OF conjunct1 [OF t] a [unfolded conj_assoc]])
  have 2: "parse_gemini_response (?p (no_candidates_body ''BLOCK_REASON_UNSPECIFIED'')) (Response ok_response)
     = ''Error: No candidates found in response and no blocking reason identified. Response JSON: ''
       @ json_dumps (?p (no_candidates_body ''BLOCK_REASON_UNSPECIFIED'')) None
           (no_candidates_body ''BLOCK_REASON_UNSPECIFIED'')"
    by (rule mp [OF conjunct1 [OF conjunct2 [OF t]] b [unfolded conj_assoc]])
  have 3: "parse_gemini_response (?p text_feedback_body) (Response ok_response)
     = ''Error processing API response structure: '' @ exn_str (?p text_feedback_body) AttributeError
       @ ''. Response JSON slice: '' @ take 500 (fmt (?p text_feedback_body) text_feedback_body)"
    by (rule mp [OF conjunct1 [OF conjunct2 [OF conjunct2 [OF t]]] c [unfolded conj_assoc]])
  have 4: "generate_text (?g (no_candidates_body ''SAFETY'')) ''key'' ''model'' ''hello'' []
     = Inr (''Error: Your request was blocked by the API. Reason: ''
            @ fmt (?g (no_candidates_body ''SAFETY'')) (PStr ''SAFETY''))"
    by (rule mp [OF conjunct1 [OF conjunct2 [OF conjunct2 [OF conjunct2 [OF t]]]]
          d [unfolded conj_assoc]])
  have 5: "generate_text (?g empty_reason_body) ''key'' ''model'' ''hello'' []
     = Inr ''Error: Could not parse the response from the model.''"
    by (rule mp [OF conjunct1 [OF conjunct2 [OF conjunct2 [OF conjunct2 [OF conjunct2 [OF t]]]]]
          e [unfolded conj_assoc]])
  have 6: "generate_text (?g text_feedback_body) ''key'' ''model'' ''hello'' []
     = Inr (''Error: An unexpected error occurred. (''
            @ exn_str (?g text_feedback_body) AttributeError @ '')'')"
    by (rule mp [OF conjunct2 [OF conjunct2 [OF conjunct2 [OF conjunct2 [OF conjunct2 [OF t]]]]]
          f [unfolded conj_assoc]])
  have v: "fmt rt' (PStr x) = x" for rt' x by simp
  have w: "exn_str (?p b) AttributeError = ''failure''" "exn_str (?g b) AttributeError = ''failure''"
    "json_dumps (?p b) None b = ''<json>''" for b
    by (simp_all add: sample_runtime_def)
  have w4: "take 500 (fmt (?p text_feedback_body) text_feedback_body) = ''<value>''"
    by (simp add: text_feedback_body_def sample_runtime_def)
  show ?thesis
    unfolding 1 2 3 4 5 6 v w w4 by simp
qed

lemma parse_cleans_successful_text:
  "parse_gemini_response
     (sample_runtime\<lparr>json_loads := (\<lambda>s. Some (stop_body (''```'' @ NL @ ''hello'' @ NL @ ''```'')))\<rparr>)
     (Response ok_response) = ''hello''"
  unfolding stop_body_def ok_response_def by code_simp

text \<open>
  C5. The removal of the code fence: the text of a fence around \<^verbatim>\<open>hello\<close> is cleaned to
  \<^verbatim>\<open>hello\<close>, the text of a fence tagged \<^verbatim>\<open>python\<close> around \<^verbatim>\<open>print(1)\<close> is cleaned to
  \<^verbatim>\<open>print(1)\<close>, and a text that contains three backticks but does not both start and
  end with them is returned as it is.
\<close>

theorem code_fence_cleaning:
  "clean_code_fences (''```'' @ NL @ ''hello'' @ NL @ ''```'') = ''hello''
   \<and> clean_code_fences (''```python'' @ NL @ ''print(1)'' @ NL @ ''```'') = ''print(1)''
   \<and> (sublist ''```'' txt \<and> \<not> (prefix ''```'' txt \<and> suffix ''```'' txt)
        \<longrightarrow> clean_code_fences txt = txt)"
proof -
  have 1: "clean_code_fences (''```'' @ NL @ ''hello'' @ NL @ ''```'') = ''hello''"
    by code_simp
  have 2: "clean_code_fences (''```python'' @ NL @ ''print(1)'' @ NL @ ''```'') = ''print(1)''"
    by code_simp
  have 3: "\<not> (prefix ''```'' txt \<and> suffix ''```'' txt) \<Longrightarrow> clean_code_fences txt = txt"
    by (auto simp add: clean_code_fences_def)
  from 1 2 3 show ?thesis by blast
qed

theorem code_fence_cleaning_witness:
  "sublist ''```'' ''use ```x``` here''
   \<and> clean_code_fences ''use ```x``` here'' = ''use ```x``` here''"
proof -
  have s: "sublist ''```'' ''use ```x``` here''" by code_simp
  have n: "\<not> (prefix ''```'' ''use ```x``` here'' \<and> suffix ''```'' ''use ```x``` here'')"
    by code_simp
  from s n code_fence_cleaning [of "''use ```x``` here''"] show ?thesis by blast
qed

section \<open>Properties of generate\_text\<close>

lemma bnd_InrE:
  assumes "bnd m f = Inr s"
  obtains x where "m = Inr x" and "f x = Inr s"
  using assms by (cases m) (simp_all add: bnd_def)

lemma candidate_text_cases:
  assumes "candidate_text candidates = Inr s"
  shows "prefix ''Error:'' s
     \<or> (\<exists>c0 content parts joined.
           py_index candidates 0 = Inr c0
         \<and> py_item c0 ''content'' = Inr content
         \<and> py_item content ''parts'' = Inr parts
         \<and> join_parts_text parts = Inr joined
         \<and> s = strip joined \<and> s \<noteq> [])"
  using assms unfolding candidate_text_def
  by (auto elim!: bnd_InrE simp add: Let_def split: if_splits)

lemma no_candidate_text_error:
  assumes "no_candidate_text rt response_data = Inr s"
  shows "prefix ''Error:'' s"
proof -
  from assms obtain prompt_feedback blocked where
    "(if blocked
      then bnd (py_item prompt_feedback ''blockReason'') (\<lambda>reason.
             Inr (''Error: Your request was blocked by the API. Reason: '' @ fmt rt reason))
      else Inr ''Error: Could not parse the response from the model.'') = Inr s"
    unfolding no_candidate_text_def by (elim bnd_InrE) (rule that)
  then show ?thesis
    by (cases blocked) (auto elim!: bnd_InrE)
qed

lemma generate_text_try_cases:
  assumes "generate_text_try rt url headers data = Inr s"
  shows "prefix ''Error:'' s
     \<or> (\<exists>response response_data candidates c0 content parts joined.
           post rt \<lparr>req_url = url, req_headers = headers, req_json = data, req_timeout = Some 90\<rparr>
             = Inr response
         \<and> raise_for_status response = Inr response
         \<and> response_json rt response = Inr response_data
         \<and> py_get response_data ''candidates'' PNone = Inr candidates
         \<and> py_index candidates 0 = Inr c0
         \<and> py_item c0 ''content'' = Inr content
         \<and> py_item content ''parts'' = Inr parts
         \<and> join_parts_text parts = Inr joined
         \<and> s = strip joined \<and> s \<noteq> [])"
proof -
  let ?req = "\<lparr>req_url = url, req_headers = headers, req_json = data, req_timeout = Some 90\<rparr>"
  from assms obtain response0 response response_data candidates has_parts
    where p: "post rt ?req = Inr response0"
      and r: "raise_for_status response0 = Inr response"
      and j: "response_json rt response = Inr response_data"
      and c: "py_get response_data ''candidates'' PNone = Inr candidates"
      and b: "(if has_parts then candidate_text candidates
               else no_candidate_text rt response_data) = Inr s"
    unfolding generate_text_try_def by (elim bnd_InrE) (rule that)
  have rr: "response = response0"
    using r by (simp add: raise_for_status_def split: if_splits)
  show ?thesis
  proof (cases has_parts)
    case True
    with b have "candidate_text candidates = Inr s" by simp
    from candidate_text_cases [OF this] p r rr j c show ?thesis by blast
  next
    case False
    with b have "no_candidate_text rt response_data = Inr s" by simp
    then have "prefix ''Error:'' s" by (rule no_candidate_text_error)
    then show ?thesis by simp
  qed
qed

lemma generate_text_handlers:
  assumes "generate_text_try rt url headers data = Inl e"
  shows "\<exists>s. (case e of
                HTTPError r \<Rightarrow>
                  Inr (''Error: API request failed (Status '' @ fmt rt (PInt (int (status_code r))) @ '').'')
              | _ \<Rightarrow>
                  (if is_RequestException e
                   then Inr (''Error: Could not connect to the API. ('' @ exn_str rt e @ '')'')
                   else Inr (''Error: An unexpected error occurred. ('' @ exn_str rt e @ '')''))) = (Inr s :: exn + string)
        \<and> prefix ''Error:'' s"
  by (cases e) simp_all

text \<open>
  C10. \<^verbatim>\<open>generate_text\<close> always returns a text and never raises. The returned text
  begins with \<^verbatim>\<open>Error:\<close> unless the call succeeded: the request, issued with a timeout
  of 90 seconds, was answered with a status outside 400 to 599, the body decoded, and the
  text is the trimmed, non-empty concatenation of the parts of the first candidate.
\<close>

theorem generate_text_total:
  "\<exists>s. generate_text rt api_key model_name prompt history = Inr s
     \<and> (prefix ''Error:'' s
        \<or> (\<exists>req response response_data candidates c0 content parts joined.
              req_timeout req = Some 90
            \<and> post rt req = Inr response
            \<and> raise_for_status response = Inr response
            \<and> response_json rt response = Inr response_data
            \<and> py_get response_data ''candidates'' PNone = Inr candidates
            \<and> py_index candidates 0 = Inr c0
            \<and> py_item c0 ''content'' = Inr content
            \<and> py_item content ''parts'' = Inr parts
            \<and> join_parts_text parts = Inr joined
            \<and> s = strip joined \<and> s \<noteq> []))"
proof -
  define url where "url = ''https://generativelanguage.googleapis.com/v1beta/models/'' @ model_name
                @ '':generateContent?key='' @ api_key"
  define headers where "headers = [(''Content-Type'', ''application/json'')]"
  define data where "data = PDict [(''contents'', PList ((if history \<noteq> [] then history else []) @ [user_entry (PStr prompt)])),
                        (''generationConfig'',
                           PDict [(''temperature'', PFloat (6 / 10)), (''maxOutputTokens'', PInt 2048)])]"
  let ?req = "\<lparr>req_url = url, req_headers = headers, req_json = data, req_timeout = Some 90\<rparr>"
  have g: "generate_text rt api_key model_name prompt history =
      (case generate_text_try rt url headers data of
           Inr s \<Rightarrow> Inr s
         | Inl e \<Rightarrow>
             (case e of
                HTTPError r \<Rightarrow>
                  Inr (''Error: API request failed (Status '' @ fmt rt (PInt (int (status_code r))) @ '').'')
              | _ \<Rightarrow>
                  (if is_RequestException e
                   then Inr (''Error: Could not connect to the API. ('' @ exn_str rt e @ '')'')
                   else Inr (''Error: An unexpected error occurred. ('' @ exn_str rt e @ '')''))))"
    by (simp add: generate_text_def Let_def url_def headers_def data_def)
  show ?thesis
  proof (cases "generate_text_try rt url headers data")
    case (Inl e)
    from generate_text_handlers [OF this] obtain s where
      h: "(case e of
                HTTPError r \<Rightarrow>
                  Inr (''Error: API request failed (Status '' @ fmt rt (PInt (int (status_code r))) @ '').'')
              | _ \<Rightarrow>
                  (if is_RequestException e
                   then Inr (''Error: Could not connect to the API. ('' @ exn_str rt e @ '')'')
                   else Inr (''Error: An unexpected error occurred. ('' @ exn_str rt e @ '')''))) = (Inr s :: exn + string)"
      and e: "prefix ''Error:'' s" by blast
    have "generate_text rt api_key model_name prompt history = Inr s"
      using g Inl h by simp
    with e show ?thesis by blast
  next
    case (Inr s)
    have t: "req_timeout ?req = Some 90" by simp
    have "generate_text rt api_key model_name prompt history = Inr s"
      using g Inr by simp
    with generate_text_try_cases [OF Inr] t show ?thesis by blast
  qed
qed


section \<open>Saving and loading round trip\<close>

subsection \<open>Decoding what the encoder wrote\<close>

lemma ws_Value: "list_all is_json_ws ws \<Longrightarrow> foldl step (st, Value) ws = (st, Value)"
  by (induction ws) simp_all

lemma ws_First: "list_all is_json_ws ws \<Longrightarrow> foldl step (st, First) ws = (st, First)"
  by (induction ws) simp_all

lemma ws_After: "list_all is_json_ws ws \<Longrightarrow> foldl step (st, After) ws = (st, After)"
  by (induction ws) simp_all

lemma ws_indent: "list_all is_json_ws (NL @ indent_of l)"
  by (simp add: indent_of_def is_json_ws_def list_all_iff)

lemma hex_val_digit: "d < 16 \<Longrightarrow> hex_val (hex_digit d) = Some d"
  by (auto simp add: hex_val_def hex_digit_def Let_def)

lemma hex_val_zero: "hex_val (CHR ''0'') = Some 0"
  by (simp add: hex_val_def)

lemma escape_unicode_steps:
  fixes c :: char
  defines "n \<equiv> (of_char c :: nat)"
  shows "foldl step (st, InString acc)
           [BS, CHR ''u'', CHR ''0'', CHR ''0'', hex_digit (n div 16), hex_digit (n mod 16)]
         = (st, InString (acc @ [c]))"
proof -
  have n: "n < 256" by (simp add: n_def)
  then have hi: "n div 16 < 16" by simp
  have lo: "n mod 16 < 16" by simp
  have v: "16 * (n div 16) + n mod 16 = n" by simp
  have c: "char_of n = c" by (simp add: n_def)
  show ?thesis
    using n by (simp add: hex_val_zero hex_val_digit [OF hi] hex_val_digit [OF lo] v c)
qed

lemma escape_char_steps:
  "foldl step (st, InString acc) (escape_char c) = (st, InString (acc @ [c]))"
proof -
  consider "c = QT" | "c = BS" | "c = CHR 0x0A" | "c = CHR 0x0D" | "c = CHR 0x09"
    | "c = CHR 0x08" | "c = CHR 0x0C"
    | "c \<noteq> QT" "c \<noteq> BS" "c \<noteq> CHR 0x0A" "c \<noteq> CHR 0x0D" "c \<noteq> CHR 0x09" "c \<noteq> CHR 0x08"
      "c \<noteq> CHR 0x0C" "32 \<le> (of_char c :: nat) \<and> (of_char c :: nat) \<le> 126"
    | "c \<noteq> QT" "c \<noteq> BS" "c \<noteq> CHR 0x0A" "c \<noteq> CHR 0x0D" "c \<noteq> CHR 0x09" "c \<noteq> CHR 0x08"
      "c \<noteq> CHR 0x0C" "\<not> (32 \<le> (of_char c :: nat) \<and> (of_char c :: nat) \<le> 126)"
    by blast
  then show ?thesis
  proof cases
    case 8
    then show ?thesis by (simp add: escape_char_def)
  next
    case 9
    then have "escape_char c = [BS, CHR ''u'', CHR ''0'', CHR ''0'',
            hex_digit ((of_char c :: nat) div 16), hex_digit ((of_char c :: nat) mod 16)]"
      by (simp add: escape_char_def)
    then show ?thesis by (simp only: escape_unicode_steps)
  qed (simp_all add: escape_char_def unescape_def)
qed

lemma escaped_text_steps:
  "foldl step (st, InString acc) (concat (map escape_char s)) = (st, InString (acc @ s))"
  by (induction s arbitrary: acc) (simp_all add: escape_char_steps)

lemma encode_str_Value: "foldl step (st, Value) (encode_str s) = complete st (PStr s)"
  by (simp add: encode_str_def is_json_ws_def value_start_def escaped_text_steps)

lemma encode_str_First: "foldl step (st, First) (encode_str s) = complete st (PStr s)"
  by (simp add: encode_str_def is_json_ws_def value_start_def escaped_text_steps)

lemma items_steps:
  assumes "\<And>x st. x \<in> set xs \<Longrightarrow> foldl step (st, Value) (enc x) = complete st x"
    and "\<And>x st. x \<in> set xs \<Longrightarrow> foldl step (st, First) (enc x) = complete st x"
    and "xs \<noteq> []"
  shows "foldl step (es # st, First) (py_join ('','' @ NL @ indent_of l) (map enc xs))
           = ((es @ xs) # st, After)
       \<and> foldl step (es # st, Value) (py_join ('','' @ NL @ indent_of l) (map enc xs))
           = ((es @ xs) # st, After)"
  using assms
proof (induction xs arbitrary: es)
  case Nil
  then show ?case by simp
next
  case (Cons x xs)
  show ?case
  proof (cases xs)
    case Nil
    then show ?thesis using Cons.prems(1,2) by simp
  next
    case (Cons y ys)
    have ih: "foldl step ((es @ [x]) # st, Value) (py_join ('','' @ NL @ indent_of l) (map enc xs))
           = (((es @ [x]) @ xs) # st, After)"
      using Cons.IH [of "es @ [x]"] Cons.prems Cons by simp
    have sep: "foldl step ((es @ [x]) # st, After) ('','' @ NL @ indent_of l) = ((es @ [x]) # st, Value)"
      using ws_Value [OF ws_indent, of "(es @ [x]) # st" l] by (simp add: is_json_ws_def)
    show ?thesis
      using Cons.prems(1) [of x "es # st"] Cons.prems(2) [of x "es # st"] ih sep
      by (simp add: Cons)
  qed
qed

lemma encode_steps:
  "covered v \<Longrightarrow>
     foldl step (st, Value) (json_encode l v) = complete st v
     \<and> foldl step (st, First) (json_encode l v) = complete st v"
proof (induction v arbitrary: st l)
  case (PStr s)
  show ?case by (simp add: encode_str_Value encode_str_First)
next
  case (PList xs)
  show ?case
  proof (cases "xs = []")
    case True
    then show ?thesis
      by (simp add: is_json_ws_def value_start_def close_list_def)
  next
    case False
    have c: "x \<in> set xs \<Longrightarrow> covered x" for x
      using PList.prems by (simp add: list_all_iff)
    have v: "x \<in> set xs \<Longrightarrow> foldl step (st', Value) (json_encode (Suc l) x) = complete st' x" for x st'
      using PList.IH [of x st' "Suc l"] c by simp
    have f: "x \<in> set xs \<Longrightarrow> foldl step (st', First) (json_encode (Suc l) x) = complete st' x" for x st'
      using PList.IH [of x st' "Suc l"] c by simp
    define pre where "pre = ''['' @ NL @ indent_of (Suc l)"
    define mid where "mid = py_join ('','' @ NL @ indent_of (Suc l)) (map (json_encode (Suc l)) xs)"
    define post where "post = NL @ indent_of l @ '']''"
    have items: "foldl step ([] # st, First) mid = (xs # st, After)"
      unfolding mid_def
      using items_steps [of xs "json_encode (Suc l)" "[]" st "Suc l", OF v f False] by simp
    have oV: "foldl step (st, Value) pre = ([] # st, First)"
      unfolding pre_def
      using ws_First [OF ws_indent, of "[] # st" "Suc l"]
      by (simp add: is_json_ws_def value_start_def)
    have oF: "foldl step (st, First) pre = ([] # st, First)"
      unfolding pre_def
      using ws_First [OF ws_indent, of "[] # st" "Suc l"]
      by (simp add: is_json_ws_def value_start_def)
    have close: "foldl step (xs # st, After) post = complete st (PList xs)"
      unfolding post_def
      using ws_After [OF ws_indent, of "xs # st" l]
      by (simp add: is_json_ws_def close_list_def)
    have e: "json_encode l (PList xs) = pre @ mid @ post"
      using False by (simp add: pre_def mid_def post_def)
    show ?thesis
      by (simp only: e foldl_append oV oF items close simp_thms)
  qed
qed simp_all

text \<open>
  Every value made of texts and lists, at any depth and with any characters in its
  texts, is decoded from its own JSON text.
\<close>

lemma json_load_encode: "covered v \<Longrightarrow> json_load (json_encode 0 v) = Decoded v"
  using encode_steps [of v "[]" 0] by (simp add: json_load_def)

lemma json_load_dump:
  "covered v \<Longrightarrow> \<exists>s. json_dump v = Some s \<and> json_load s = Decoded v"
  by (simp add: json_dump_def json_load_encode)

text \<open>
  The text written for one exchange, with a quote and a line break in the answer, and
  what the decoder makes of texts that are not a history.
\<close>

lemma json_dump_sample:
  "json_dump (PList [PList [PStr ''hi'', PStr (''a '' @ [QT] @ ''b'' @ [QT] @ NL)]])
   = Some (''['' @ NL @ ''  ['' @ NL @ ''    '' @ [QT] @ ''hi'' @ [QT] @ '','' @ NL
           @ ''    '' @ [QT] @ ''a '' @ [BS, QT] @ ''b'' @ [BS, QT] @ [BS] @ ''n'' @ [QT] @ NL
           @ ''  ]'' @ NL @ '']'')"
  by code_simp

lemma json_load_samples:
  "json_load [] = Invalid
   \<and> json_load ''[[]'' = Invalid
   \<and> json_load ''[[],]'' = Invalid
   \<and> json_load ''[] []'' = Invalid
   \<and> json_load ''[1]'' = Unmodelled
   \<and> json_load ''{}'' = Unmodelled
   \<and> json_load '' [ [ ] , [ ] ] '' = Decoded (PList [PList [], PList []])
   \<and> json_load ([QT, BS] @ ''u0041'' @ [BS] @ ''/'' @ [QT]) = Decoded (PStr ''A/'')"
  by code_simp

subsection \<open>The files\<close>

lemma entries_covered: "covered (PList (map (\<lambda>(q, a). PList [PStr q, PStr a]) H))"
  by (induction H) auto


lemma entries_pass_text: "list_all is_text_pair (map (\<lambda>(q, a). PList [PStr q, PStr a]) H)"
  by (induction H) auto

lemma py_slice_from_short:
  "length xs \<le> n \<Longrightarrow> py_slice_from (- int n) xs = xs"
  by (simp add: py_slice_from_def Let_def)

lemma entries_dump:
  "json_dump (PList (map (\<lambda>(q, a). PList [PStr q, PStr a]) H))
   = Some (json_encode 0 (PList (map (\<lambda>(q, a). PList [PStr q, PStr a]) H)))"
  by (simp only: json_dump_def entries_covered if_True)

lemma written_file:
  "file_text (fs\<lparr>file_text := (file_text fs)(name \<mapsto> s)\<rparr>) name = Some s"
  by simp


lemma load_hist_entries:
  assumes "file_text fs (Path_str filename) = Some (json_encode 0 (PList (map (\<lambda>(q, a). PList [PStr q, PStr a]) H)))"
  shows "load_hist fs filename old
         = Some (py_slice_from (- int MAX_HISTORY) (map (\<lambda>(q, a). PList [PStr q, PStr a]) H))"
proof -
  define h where "h = map (\<lambda>(q, a). PList [PStr q, PStr a]) H"
  define s where "s = json_encode 0 (PList h)"
  have f: "file_text fs (Path_str filename) = Some s"
    using assms by (simp only: s_def h_def)
  have d: "json_load s = Decoded (PList h)"
    unfolding s_def h_def by (rule json_load_encode [OF entries_covered])
  have p: "list_all is_text_pair h"
    unfolding h_def by (rule entries_pass_text)
  have "load_hist fs filename old = Some (py_slice_from (- int MAX_HISTORY) h)"
    by (simp add: load_hist_def f d p)
  then show ?thesis by (simp only: h_def)
qed

lemma save_history_unwritable:
  "\<not> writable fs filename \<Longrightarrow> save_history fs filename history = Some fs"
  by (simp add: save_history_def)

text \<open>
  A file that cannot be read, a text that is no JSON and a value of another shape leave
  the history in memory as it was.
\<close>

lemma load_history_keeps_history:
  "file_text fs filename = None \<Longrightarrow> load_history fs filename history = Some history"
  "file_text fs filename = Some content \<Longrightarrow> json_load content = Invalid
     \<Longrightarrow> load_history fs filename history = Some history"
  "file_text fs filename = Some content \<Longrightarrow> json_load content = Decoded (PStr s)
     \<Longrightarrow> load_history fs filename history = Some history"
  "file_text fs filename = Some content \<Longrightarrow> json_load content = Decoded (PList items)
     \<Longrightarrow> \<not> list_all (\<lambda>item. is_list item \<and> list_len item = 2) items
     \<Longrightarrow> load_history fs filename history = Some history"
  by (simp_all add: load_history_def)



subsection \<open>The commands of .old/code.py\<close>

lemma Path_samples:
  "Path_str ''h.json'' = ''h.json'' \<and> Path_parent_str ''h.json'' = ''.''
   \<and> Path_str ''./h.json'' = ''h.json'' \<and> Path_parent_str ''./h.json'' = ''.''
   \<and> Path_str ''a//h.json'' = ''a/h.json'' \<and> Path_parent_str ''a//h.json'' = ''a''
   \<and> Path_parent_str ''/h.json'' = ''/''
   \<and> Path_parent_str ''../h.json'' = ''..''"
  by code_simp

lemma save_hist_name:
  assumes "name = (if \<not> suffix ''.json'' (map lower_char filename)
                   then filename @ ''.json'' else filename)"
  shows "save_hist fs filename history =
     (if Path_parent_str name \<noteq> ''.'' then Some fs
      else if writable fs (Path_str name)
      then (case json_dump (PList history) of
              None \<Rightarrow> None
            | Some s \<Rightarrow> Some (fs\<lparr>file_text := (file_text fs)(Path_str name \<mapsto> s)\<rparr>))
      else Some fs)"
  unfolding assms save_hist_def Let_def by (rule refl)

lemma save_hist_refuses_directory:
  assumes "name = (if \<not> suffix ''.json'' (map lower_char filename)
                   then filename @ ''.json'' else filename)"
    and "Path_parent_str name \<noteq> ''.''"
  shows "save_hist fs filename history = Some fs"
  using assms(2) by (simp add: save_hist_name [OF assms(1)])

text \<open>
  With \<^verbatim>\<open>/save_hist\<close> and \<^verbatim>\<open>/load_hist\<close> of .old/code.py: the file is the name with
  \<^verbatim>\<open>.json\<close> added when it does not end so; when it lies in the current directory and
  can be opened for writing, loading it gives the last \<^verbatim>\<open>MAX_HISTORY\<close> entries of the
  history that was saved, which is the whole of it when it has at most that many.
\<close>

lemma save_hist_round_trip:
  assumes "name = (if \<not> suffix ''.json'' (map lower_char filename)
                   then filename @ ''.json'' else filename)"
    and "Path_parent_str name = ''.''"
    and "writable fs (Path_str name)"
  shows "\<exists>fs'. save_hist fs filename (map (\<lambda>(q, a). PList [PStr q, PStr a]) H) = Some fs'
           \<and> load_hist fs' name old
               = Some (py_slice_from (- int MAX_HISTORY) (map (\<lambda>(q, a). PList [PStr q, PStr a]) H))
           \<and> (length H \<le> MAX_HISTORY \<longrightarrow>
                load_hist fs' name old = Some (map (\<lambda>(q, a). PList [PStr q, PStr a]) H))"
proof -
  define h where "h = map (\<lambda>(q, a). PList [PStr q, PStr a]) H"
  define s where "s = json_encode 0 (PList h)"
  define fs' where "fs' = fs\<lparr>file_text := (file_text fs)(Path_str name \<mapsto> s)\<rparr>"
  have d: "json_dump (PList h) = Some s"
    unfolding s_def h_def by (rule entries_dump)
  have sv: "save_hist fs filename h = Some fs'"
    by (simp add: save_hist_name [OF assms(1)] assms(2) assms(3) d fs'_def)
  have "file_text fs' (Path_str name) = Some s"
    unfolding fs'_def by (rule written_file)
  then have l: "load_hist fs' name old = Some (py_slice_from (- int MAX_HISTORY) h)"
    unfolding s_def h_def by (rule load_hist_entries)
  have "length H \<le> MAX_HISTORY \<Longrightarrow> py_slice_from (- int MAX_HISTORY) h = h"
    by (simp add: py_slice_from_short h_def)
  with l have l': "length H \<le> MAX_HISTORY \<longrightarrow> load_hist fs' name old = Some h"
    by simp
  from sv l l' have "\<exists>fs'. save_hist fs filename h = Some fs'
           \<and> load_hist fs' name old = Some (py_slice_from (- int MAX_HISTORY) h)
           \<and> (length H \<le> MAX_HISTORY \<longrightarrow> load_hist fs' name old = Some h)"
    by blast
  then show ?thesis by (simp only: h_def)
qed

text \<open>
  \<^verbatim>\<open>/save_hist h\<close> writes the file \<^verbatim>\<open>h.json\<close>; \<^verbatim>\<open>/load_hist h\<close>, which looks for a
  file \<^verbatim>\<open>h\<close>, then leaves the history as it was, and \<^verbatim>\<open>/load_hist h.json\<close> restores
  what was saved.
\<close>

lemma save_hist_renames:
  "\<exists>fs'. save_hist \<lparr>file_text = (\<lambda>name. None), writable = (\<lambda>name. True)\<rparr> ''h''
            [PList [PStr ''hi'', PStr ''hello'']] = Some fs'
         \<and> load_hist fs' ''h'' [] = Some []
         \<and> load_hist fs' ''h.json'' [] = Some [PList [PStr ''hi'', PStr ''hello'']]"
proof -
  define fs where "fs = \<lparr>file_text = (\<lambda>name :: string. None :: string option), writable = (\<lambda>name :: string. True)\<rparr>"
  define s where "s = json_encode 0 (PList (map (\<lambda>(q, a). PList [PStr q, PStr a]) [(''hi'', ''hello'')]))"
  define fs' where "fs' = fs\<lparr>file_text := (file_text fs)(''h.json'' \<mapsto> s)\<rparr>"
  have m: "map (\<lambda>(q, a). PList [PStr q, PStr a]) [(''hi'', ''hello'')] = [PList [PStr ''hi'', PStr ''hello'']]"
    by simp
  have n: "''h.json'' = (if \<not> suffix ''.json'' (map lower_char ''h'') then ''h'' @ ''.json'' else ''h'')"
    by code_simp
  have p: "Path_parent_str ''h.json'' = ''.''" by code_simp
  have k: "Path_str ''h.json'' = ''h.json''" by code_simp
  have k': "Path_str ''h'' = ''h''" by code_simp
  have d: "json_dump (PList [PList [PStr ''hi'', PStr ''hello'']]) = Some s"
    using entries_dump [of "[(''hi'', ''hello'')]"] by (simp only: m s_def)
  have sv: "save_hist fs ''h'' [PList [PStr ''hi'', PStr ''hello'']] = Some fs'"
    by (simp add: save_hist_name [OF n] p k d fs'_def fs_def)
  have "file_text fs' (Path_str ''h'') = None"
    by (simp add: k' fs'_def fs_def)
  then have l1: "load_hist fs' ''h'' [] = Some []"
    by (simp add: load_hist_def)
  have "file_text fs' (Path_str ''h.json'') = Some s"
    by (simp add: k fs'_def)
  then have "load_hist fs' ''h.json'' []
      = Some (py_slice_from (- int MAX_HISTORY) (map (\<lambda>(q, a). PList [PStr q, PStr a]) [(''hi'', ''hello'')]))"
    unfolding s_def by (rule load_hist_entries)
  then have l2: "load_hist fs' ''h.json'' [] = Some [PList [PStr ''hi'', PStr ''hello'']]"
    by (simp add: m py_slice_from_def MAX_HISTORY_def)
  from sv l1 l2 show ?thesis
    unfolding fs_def by blast
qed

end
